theory Spec2Isabelle
  imports Complex_Main "HOL-Library.Word" "HOL-Library.Multiset"
begin

section \<open>JavaScript values\<close>

text \<open>
  A JavaScript string is a sequence of 16-bit code units. String literals of the source
  are ASCII and are written as HOL strings, converted by \<open>js\<close>.
\<close>

type_synonym jsstring = "16 word list"

definition js :: "string \<Rightarrow> jsstring" where
  "js s = map (\<lambda>c. of_nat (of_char c)) s"

text \<open>
  \<open>String.prototype.trim\<close> removes WhiteSpace and LineTerminator code units from both
  ends: TAB, LF, VT, FF, CR, SP, NBSP, the Unicode space separators, LS, PS and ZWNBSP.
\<close>

definition is_whitespace :: "16 word \<Rightarrow> bool" where
  "is_whitespace c \<longleftrightarrow>
     c = 0x9 \<or> c = 0xA \<or> c = 0xB \<or> c = 0xC \<or> c = 0xD \<or> c = 0x20 \<or> c = 0xA0 \<or>
     c = 0x1680 \<or> (0x2000 \<le> c \<and> c \<le> 0x200A) \<or> c = 0x2028 \<or> c = 0x2029 \<or>
     c = 0x202F \<or> c = 0x205F \<or> c = 0x3000 \<or> c = 0xFEFF"

definition trim :: "jsstring \<Rightarrow> jsstring" where
  "trim s = rev (dropWhile is_whitespace (rev (dropWhile is_whitespace s)))"

text \<open>Truthiness of a \<open>string | null\<close>: \<open>null\<close> and the empty string are falsy.\<close>

fun truthy :: "jsstring option \<Rightarrow> bool" where
  "truthy None = False"
| "truthy (Some s) = (s \<noteq> [])"

text \<open>
  The values a \<open>Record<string, unknown>\<close> holds in this program. A JavaScript number
  is modelled as a real; NaN and the infinities are not represented.
\<close>

datatype jsvalue = JNull | JBool bool | JNum real | JStr jsstring

text \<open>Decimal digits of a natural number, as \<open>Number.prototype.toString\<close> prints an integer.\<close>

fun show_nat :: "nat \<Rightarrow> string" where
  "show_nat n =
     (if n < 10 then [''0123456789'' ! n]
      else show_nat (n div 10) @ [''0123456789'' ! (n mod 10)])"

declare show_nat.simps [simp del]

section \<open>Data of the chat hook (use-chat.ts)\<close>

record Source =
  content :: jsstring
  metadata :: "(jsstring \<times> jsvalue) list"
  similarity_score :: real

record ChatMessage =
  msg_id :: jsstring
  msg_chat_id :: jsstring
  msg_user_id :: jsstring
  message :: jsstring
  response :: jsstring
  message_type :: jsstring
  sources :: "Source list"
  timestamp :: jsstring
  msg_metadata :: "(jsstring \<times> jsvalue) list"

record Chat =
  chat_id :: jsstring
  title :: jsstring
  created_at :: jsstring
  last_message_at :: jsstring
  message_count :: nat

record ChatResponse =
  res_response :: jsstring
  res_chat_id :: jsstring
  res_sources :: "Source list"
  res_timestamp :: jsstring

record File =
  file_name :: jsstring
  file_type :: jsstring
  file_size :: nat

text \<open>
  The outcome of one axios call is supplied by the environment: the promise is rejected
  (network error or a status outside 2xx) or resolved with the response body.
\<close>

datatype 'a answer = Rejected | Resolved 'a

text \<open>What a handler does to the outside world, in order.\<close>

datatype request =
    PostChat jsstring "jsstring option" bool
  | GetChats
  | GetHistory jsstring
  | DeleteChat jsstring
  | PostUpload File

datatype effect =
    Request request
  | Toast_error string
  | Toast_success string
  | Console_error string

record useChat_state =
  chats :: "Chat list"
  loading :: bool
  error :: "string option"

section \<open>The hook useChat\<close>

definition fetchChats :: "Chat list answer \<Rightarrow> useChat_state \<Rightarrow> useChat_state \<times> effect list" where
  "fetchChats ans h =
     (case ans of
        Resolved data \<Rightarrow>
          (h\<lparr>chats := data, error := None, loading := False\<rparr>, [Request GetChats])
      | Rejected \<Rightarrow>
          (h\<lparr>error := Some ''Failed to load chats'', loading := False\<rparr>,
           [Request GetChats, Console_error ''Failed to fetch chats:'',
            Toast_error ''Failed to load chats'']))"

text \<open>
  \<open>sendMessage\<close> posts the message; when the post resolves it refreshes the chat list and
  returns the body (\<open>None\<close> is a falsy body such as \<open>null\<close>); when the post is rejected
  it returns \<open>null\<close>. \<open>fetchChats\<close> catches its own errors, so it never rejects.
\<close>

definition sendMessage ::
  "ChatResponse option answer \<Rightarrow> Chat list answer \<Rightarrow> jsstring \<Rightarrow> jsstring option \<Rightarrow>
   useChat_state \<Rightarrow> ChatResponse option \<times> useChat_state \<times> effect list" where
  "sendMessage post_ans chats_ans msg chatId h =
     (case post_ans of
        Resolved data \<Rightarrow>
          (let (h', es) = fetchChats chats_ans h
           in (data, h', Request (PostChat msg chatId True) # es))
      | Rejected \<Rightarrow>
          (None, h,
           [Request (PostChat msg chatId True), Console_error ''Failed to send message:'',
            Toast_error ''Failed to send message'']))"

definition getChatHistory ::
  "ChatMessage list answer \<Rightarrow> jsstring \<Rightarrow> ChatMessage list \<times> effect list" where
  "getChatHistory ans chatId =
     (case ans of
        Resolved data \<Rightarrow> (data, [Request (GetHistory chatId)])
      | Rejected \<Rightarrow>
          ([], [Request (GetHistory chatId), Console_error ''Failed to fetch chat history:'',
                Toast_error ''Failed to load chat history'']))"

definition deleteChat ::
  "unit answer \<Rightarrow> jsstring \<Rightarrow> useChat_state \<Rightarrow> bool \<times> useChat_state \<times> effect list" where
  "deleteChat ans chatId h =
     (case ans of
        Resolved _ \<Rightarrow>
          (True, h\<lparr>chats := filter (\<lambda>chat. chat_id chat \<noteq> chatId) (chats h)\<rparr>,
           [Request (DeleteChat chatId), Toast_success ''Chat deleted successfully''])
      | Rejected \<Rightarrow>
          (False, h,
           [Request (DeleteChat chatId), Console_error ''Failed to delete chat:'',
            Toast_error ''Failed to delete chat'']))"

definition uploadDocument :: "unit answer \<Rightarrow> File \<Rightarrow> bool \<times> effect list" where
  "uploadDocument ans file =
     (case ans of
        Resolved _ \<Rightarrow>
          (True, [Request (PostUpload file), Toast_success ''Document uploaded successfully''])
      | Rejected \<Rightarrow>
          (False, [Request (PostUpload file), Console_error ''Failed to upload document:'',
                   Toast_error ''Failed to upload document'']))"

section \<open>The chat view (ChatInterface)\<close>

record ChatInterface_state =
  messages :: "ChatMessage list"
  input :: jsstring
  isLoading :: bool
  loadingHistory :: bool

text \<open>
  What the environment supplies during one call of \<open>handleSend\<close>: the outcome of the
  post, the outcome of the chat-list refresh that follows it, the two readings of
  \<open>Date.now()\<close> and the reading of \<open>new Date().toISOString()\<close>.
\<close>

record send_env =
  post_answer :: "ChatResponse option answer"
  chats_answer :: "Chat list answer"
  now_user :: nat
  now_iso :: jsstring
  now_ai :: nat

definition newUserMessage :: "send_env \<Rightarrow> jsstring \<Rightarrow> ChatResponse \<Rightarrow> ChatMessage" where
  "newUserMessage env userMessage r =
     \<lparr>msg_id = js ''user-'' @ js (show_nat (now_user env)),
      msg_chat_id = res_chat_id r,
      msg_user_id = [],
      message = userMessage,
      response = [],
      message_type = js ''user'',
      sources = [],
      timestamp = now_iso env,
      msg_metadata = []\<rparr>"

definition newAiMessage :: "send_env \<Rightarrow> ChatResponse \<Rightarrow> ChatMessage" where
  "newAiMessage env r =
     \<lparr>msg_id = js ''ai-'' @ js (show_nat (now_ai env)),
      msg_chat_id = res_chat_id r,
      msg_user_id = [],
      message = [],
      response = res_response r,
      message_type = js ''assistant'',
      sources = res_sources r,
      timestamp = res_timestamp r,
      msg_metadata = []\<rparr>"

text \<open>
  \<open>handleSend\<close> as one step. It returns the component's state, the hook's state, the
  effects in order, and the argument of \<open>onChatCreated\<close> when that callback is called.
  \<open>sendMessage\<close> never rejects, so the handler's own \<open>catch\<close> branch is not reached.
\<close>

definition handleSend ::
  "send_env \<Rightarrow> jsstring option \<Rightarrow> ChatInterface_state \<Rightarrow> useChat_state \<Rightarrow>
   ChatInterface_state \<times> useChat_state \<times> effect list \<times> jsstring option" where
  "handleSend env chatId ci h =
     (if trim (input ci) = [] \<or> isLoading ci then (ci, h, [], None)
      else
        let userMessage = trim (input ci);
            (resp, h', es) =
              sendMessage (post_answer env) (chats_answer env) userMessage chatId h
        in case resp of
             None \<Rightarrow> (ci\<lparr>input := [], isLoading := False\<rparr>, h', es, None)
           | Some r \<Rightarrow>
               (ci\<lparr>input := [], isLoading := False,
                   messages := messages ci @ [newUserMessage env userMessage r, newAiMessage env r]\<rparr>,
                h', es, if truthy chatId then None else Some (res_chat_id r)))"

text \<open>The effect that runs when the \<open>chatId\<close> property changes.\<close>

definition chatId_effect ::
  "ChatMessage list answer \<Rightarrow> jsstring option \<Rightarrow> ChatInterface_state \<Rightarrow>
   ChatInterface_state \<times> effect list" where
  "chatId_effect hist_ans chatId ci =
     (case chatId of
        None \<Rightarrow> (ci\<lparr>messages := []\<rparr>, [])
      | Some c \<Rightarrow>
          if c = [] then (ci\<lparr>messages := []\<rparr>, [])
          else
            let (msgs, es) = getChatHistory hist_ans c
            in (ci\<lparr>messages := msgs, loadingHistory := False\<rparr>, es))"

text \<open>
  What \<open>renderMessage\<close> shows of one message. \<open>Math.round\<close> rounds to the nearest
  integer, a tie towards plus infinity. \<open>formatTimestamp\<close> depends on the locale and is a
  parameter.
\<close>

definition Math_round :: "real \<Rightarrow> int" where
  "Math_round x = \<lfloor>x + 1 / 2\<rfloor>"

record source_view =
  match_percent :: int
  page_label :: "real option"
  source_text :: jsstring

record message_view =
  is_user :: bool
  shown_content :: jsstring
  shown_time :: jsstring
  shown_sources :: "source_view list"

definition metadata_page :: "Source \<Rightarrow> real option" where
  "metadata_page s =
     (case map_of (metadata s) (js ''page'') of
        Some (JNum n) \<Rightarrow> if n = 0 then None else Some n
      | _ \<Rightarrow> None)"

definition renderSource :: "Source \<Rightarrow> source_view" where
  "renderSource s =
     \<lparr>match_percent = Math_round (similarity_score s * 100),
      page_label = metadata_page s,
      source_text = content s\<rparr>"

definition renderMessage :: "(jsstring \<Rightarrow> jsstring) \<Rightarrow> ChatMessage \<Rightarrow> message_view" where
  "renderMessage formatTimestamp m =
     (let isUser = (message_type m = js ''user'')
      in \<lparr>is_user = isUser,
          shown_content = (if isUser then message m else response m),
          shown_time = formatTimestamp (timestamp m),
          shown_sources =
            (if \<not> isUser \<and> length (sources m) > 0 then map renderSource (sources m)
             else [])\<rparr>)"

section \<open>The dashboard page\<close>

record Dashboard_state =
  currentChatId :: "jsstring option"
  isSidebarOpen :: bool
  isUploadDialogOpen :: bool

definition handleNewChat :: "Dashboard_state \<Rightarrow> Dashboard_state" where
  "handleNewChat d = d\<lparr>currentChatId := None\<rparr>"

definition handleSelectChat :: "jsstring \<Rightarrow> Dashboard_state \<Rightarrow> Dashboard_state" where
  "handleSelectChat chatId d = d\<lparr>currentChatId := Some chatId\<rparr>"

text \<open>The callback the page passes to the chat view: adopt the id, refetch the chats.\<close>

definition onChatCreated ::
  "Chat list answer \<Rightarrow> jsstring \<Rightarrow> Dashboard_state \<Rightarrow> useChat_state \<Rightarrow>
   Dashboard_state \<times> useChat_state \<times> effect list" where
  "onChatCreated refetch_ans newChatId d h =
     (let (h', es) = fetchChats refetch_ans h
      in (d\<lparr>currentChatId := Some newChatId\<rparr>, h', es))"

text \<open>
  The page with its chat view. Each component that calls \<open>useChat\<close> has its own copy of
  the hook's state.
\<close>

record Page =
  dashboard :: Dashboard_state
  dashboard_hook :: useChat_state
  chat_view :: ChatInterface_state
  chat_view_hook :: useChat_state
  trace :: "effect list"

text \<open>
  \<open>send_turn\<close> is the synchronous part of a turn: \<open>handleSend\<close> of the chat view
  and, when it is called, the page's \<open>onChatCreated\<close>. The effect of the chat view
  on a changed \<open>chatId\<close> is not part of it; \<open>page_turn\<close> below adds it.
\<close>

definition send_turn :: "send_env \<Rightarrow> Chat list answer \<Rightarrow> Page \<Rightarrow> Page" where
  "send_turn env refetch_ans p =
     (let (ci, h, es, created) =
            handleSend env (currentChatId (dashboard p)) (chat_view p) (chat_view_hook p)
      in case created of
           None \<Rightarrow> p\<lparr>chat_view := ci, chat_view_hook := h, trace := trace p @ es\<rparr>
         | Some newChatId \<Rightarrow>
             (let (d, dh, es') =
                    onChatCreated refetch_ans newChatId (dashboard p) (dashboard_hook p)
              in p\<lparr>dashboard := d, dashboard_hook := dh, chat_view := ci,
                    chat_view_hook := h, trace := trace p @ es @ es'\<rparr>))"

text \<open>
  A turn as the page sees it. \<open>send_turn\<close> is the handler with the callback; when it
  has changed \<open>currentChatId\<close>, the chat view is rendered with a new \<open>chatId\<close>
  property and its effect runs after the handler's own update of the message list.
\<close>

definition page_turn ::
  "send_env \<Rightarrow> Chat list answer \<Rightarrow> ChatMessage list answer \<Rightarrow> Page \<Rightarrow> Page" where
  "page_turn env refetch_ans hist_ans p =
     (let p' = send_turn env refetch_ans p
      in if currentChatId (dashboard p') = currentChatId (dashboard p) then p'
         else
           let (ci, es) = chatId_effect hist_ans (currentChatId (dashboard p')) (chat_view p')
           in p'\<lparr>chat_view := ci, trace := trace p' @ es\<rparr>)"

section \<open>The chat sidebar\<close>

text \<open>
  \<open>Array.prototype.sort\<close> with a comparator is stable; a comparator result of NaN
  (\<open>None\<close>) counts as \<open>+0\<close>. It is modelled as a stable insertion sort.
\<close>

fun compare_result :: "int option \<Rightarrow> int" where
  "compare_result None = 0"
| "compare_result (Some v) = v"

fun insert_sorted :: "('a \<Rightarrow> 'a \<Rightarrow> int option) \<Rightarrow> 'a \<Rightarrow> 'a list \<Rightarrow> 'a list" where
  "insert_sorted cmp x [] = [x]"
| "insert_sorted cmp x (y # ys) =
     (if compare_result (cmp x y) \<le> 0 then x # y # ys else y # insert_sorted cmp x ys)"

definition Array_sort :: "('a \<Rightarrow> 'a \<Rightarrow> int option) \<Rightarrow> 'a list \<Rightarrow> 'a list" where
  "Array_sort cmp xs = foldr (insert_sorted cmp) xs []"

text \<open>
  \<open>new Date(s).getTime()\<close> is a parameter \<open>getTime\<close>: the time value in milliseconds,
  or \<open>None\<close> (NaN) when the string is not a date. Subtraction yields NaN when an
  operand is NaN.
\<close>

fun number_minus :: "int option \<Rightarrow> int option \<Rightarrow> int option" where
  "number_minus (Some x) (Some y) = Some (x - y)"
| "number_minus _ _ = None"

text \<open>The comparison \<open>a >= b\<close> of two numbers: false when an operand is NaN.\<close>

fun number_ge :: "int option \<Rightarrow> int option \<Rightarrow> bool" where
  "number_ge (Some x) (Some y) = (y \<le> x)"
| "number_ge _ _ = False"

definition sortedChats :: "(jsstring \<Rightarrow> int option) \<Rightarrow> Chat list \<Rightarrow> Chat list" where
  "sortedChats getTime cs =
     Array_sort
       (\<lambda>a b. number_minus (getTime (last_message_at b)) (getTime (last_message_at a))) cs"

datatype sidebar_view = Spinner | No_chats_yet | Chat_cards "Chat list"

definition ChatSidebar :: "(jsstring \<Rightarrow> int option) \<Rightarrow> Chat list \<Rightarrow> bool \<Rightarrow> sidebar_view" where
  "ChatSidebar getTime cs is_loading =
     (if is_loading then Spinner
      else if length cs = 0 then No_chats_yet
      else Chat_cards (sortedChats getTime cs))"

text \<open>
  \<open>handleDeleteChat\<close> returns the hook's state, the effects, and the argument of
  \<open>onSelectChat\<close> when the deleted chat was the current one.
\<close>

definition handleDeleteChat ::
  "unit answer \<Rightarrow> jsstring \<Rightarrow> jsstring option \<Rightarrow> useChat_state \<Rightarrow>
   useChat_state \<times> effect list \<times> jsstring option" where
  "handleDeleteChat ans chatId current h =
     (let (success, h', es) = deleteChat ans chatId h
      in (h', es, if success \<and> current = Some chatId then Some [] else None))"

section \<open>Document upload\<close>

record DocumentUpload_state =
  selectedFile :: "File option"
  isUploading :: bool

definition onDrop ::
  "File list \<Rightarrow> DocumentUpload_state \<Rightarrow> DocumentUpload_state \<times> effect list" where
  "onDrop acceptedFiles st =
     (case acceptedFiles of
        file # _ \<Rightarrow>
          if file_type file = js ''application/pdf''
          then (st\<lparr>selectedFile := Some file\<rparr>, [])
          else (st, [Toast_error ''Please select a PDF file''])
      | [] \<Rightarrow> (st, [Toast_error ''Please select a PDF file'']))"

text \<open>The boolean says whether \<open>onUploadSuccess\<close> was called.\<close>

definition handleUpload ::
  "unit answer \<Rightarrow> DocumentUpload_state \<Rightarrow> DocumentUpload_state \<times> effect list \<times> bool" where
  "handleUpload ans st =
     (case selectedFile st of
        None \<Rightarrow> (st, [], False)
      | Some file \<Rightarrow>
          (let (success, es) = uploadDocument ans file
           in if success then (st\<lparr>selectedFile := None, isUploading := False\<rparr>, es, True)
              else (st\<lparr>isUploading := False\<rparr>, es, False)))"

definition removeFile :: "DocumentUpload_state \<Rightarrow> DocumentUpload_state" where
  "removeFile st = st\<lparr>selectedFile := None\<rparr>"

text \<open>The component over a sequence of user actions, from its initial state.\<close>

datatype upload_event = Drop "File list" | Upload "unit answer" | Remove

fun upload_step ::
  "DocumentUpload_state \<times> effect list \<Rightarrow> upload_event \<Rightarrow> DocumentUpload_state \<times> effect list" where
  "upload_step (st, tr) (Drop files) = (let (st', es) = onDrop files st in (st', tr @ es))"
| "upload_step (st, tr) (Upload ans) = (let (st', es, _) = handleUpload ans st in (st', tr @ es))"
| "upload_step (st, tr) Remove = (removeFile st, tr)"

definition DocumentUpload_init :: DocumentUpload_state where
  "DocumentUpload_init = \<lparr>selectedFile = None, isUploading = False\<rparr>"

definition DocumentUpload_run :: "upload_event list \<Rightarrow> DocumentUpload_state \<times> effect list" where
  "DocumentUpload_run evs = foldl upload_step (DocumentUpload_init, []) evs"

text \<open>
  The invariant of the upload component: a selected file is a PDF, and so is the file of
  every upload request issued so far.
\<close>

definition pdf_only :: "DocumentUpload_state \<times> effect list \<Rightarrow> bool" where
  "pdf_only c \<longleftrightarrow>
     (\<forall>f. selectedFile (fst c) = Some f \<longrightarrow> file_type f = js ''application/pdf'') \<and>
     (\<forall>g. Request (PostUpload g) \<in> set (snd c) \<longrightarrow> file_type g = js ''application/pdf'')"

section \<open>File sizes (formatFileSize)\<close>

text \<open>
  \<open>formatFileSize\<close>. A file's size is a non-negative integer. \<open>Math.log\<close> is the
  natural logarithm and \<open>Math.floor\<close> the floor, both over the reals; the rounding of
  IEEE doubles is not modelled. Reading \<open>sizes[i]\<close> outside the array yields
  \<open>undefined\<close>, which string concatenation prints as that word.
\<close>

definition sizes :: "string list" where
  "sizes = [''Bytes'', ''KB'', ''MB'', ''GB'']"

definition unit_index :: "nat \<Rightarrow> int" where
  "unit_index bytes = \<lfloor>ln (real bytes) / ln 1024\<rfloor>"

definition sizes_at :: "int \<Rightarrow> string" where
  "sizes_at i = (if 0 \<le> i \<and> i < int (length sizes) then sizes ! nat i else ''undefined'')"

text \<open>
  \<open>x.toFixed(2)\<close> prints the multiple of 1/100 nearest to \<open>x\<close>, the larger one on a
  tie, and \<open>parseFloat\<close> reads it back: \<open>toFixed2\<close> is that number, in hundredths.
  \<open>show_hundredths\<close> prints it as string concatenation prints a number, without
  trailing zeros.
\<close>

definition toFixed2 :: "real \<Rightarrow> nat" where
  "toFixed2 x = nat \<lfloor>x * 100 + 1 / 2\<rfloor>"

definition show_hundredths :: "nat \<Rightarrow> string" where
  "show_hundredths n =
     show_nat (n div 100) @
     (if n mod 100 = 0 then []
      else if n mod 10 = 0 then CHR ''.'' # show_nat (n mod 100 div 10)
      else CHR ''.'' # show_nat (n mod 100 div 10) @ show_nat (n mod 10))"

definition size_number :: "nat \<Rightarrow> nat" where
  "size_number bytes = toFixed2 (real bytes / 1024 powr real_of_int (unit_index bytes))"

definition formatFileSize :: "nat \<Rightarrow> jsstring" where
  "formatFileSize bytes =
     (if bytes = 0 then js ''0 Bytes''
      else js (show_hundredths (size_number bytes) @ '' '' @ sizes_at (unit_index bytes)))"

section \<open>The chat session store\<close>

text \<open>
  The Chat Session Store and the endpoints that call it belong to the backend, which is
  not among the sources. The definitions of this section follow sections 3, 4.7 and 4.9
  of the specification.
\<close>

text \<open>Modelled from the spec: the error of the store (section 7), the backend is missing.\<close>

datatype store_error = NotFoundError

text \<open>Modelled from the spec: the role of a Message (section 3), the backend is missing.\<close>

datatype role = User | Assistant

text \<open>
  Modelled from the spec: the stored Message (section 3), the backend is missing. The
  message id and the timestamp play no part here and are left out.
\<close>

record Message =
  role :: role
  text_of :: jsstring
  attached :: "Source list"

text \<open>
  Modelled from the spec: the ChatSession (section 3) with its Messages in chronological
  order, the backend is missing.
\<close>

record ChatSession =
  session_id :: jsstring
  owner_id :: jsstring
  session_title :: jsstring
  session_created_at :: int
  session_last_message_at :: int
  session_message_count :: nat
  session_messages :: "Message list"

text \<open>
  Modelled from the spec: the persisted sessions, in creation order; the backend is
  missing.
\<close>

type_synonym store = "ChatSession list"

text \<open>
  Modelled from the spec: "a session with that id is owned by \<open>owner_id\<close>" (section
  4.7), the backend is missing.
\<close>

definition owned :: "jsstring \<Rightarrow> jsstring \<Rightarrow> ChatSession \<Rightarrow> bool" where
  "owned cid owner s \<longleftrightarrow> session_id s = cid \<and> owner_id s = owner"

text \<open>
  Modelled from the spec: what \<open>append\<close> does to an existing session (section 4.7):
  both Messages are appended, \<open>last_message_at\<close> is updated and \<open>message_count\<close>
  grows by 2. The backend is missing.
\<close>

definition append_turn :: "int \<Rightarrow> Message \<Rightarrow> Message \<Rightarrow> ChatSession \<Rightarrow> ChatSession" where
  "append_turn now um am s =
     s\<lparr>session_messages := session_messages s @ [um, am],
       session_last_message_at := now,
       session_message_count := session_message_count s + 2\<rparr>"

text \<open>
  Modelled from the spec: \<open>append(chat_id?, owner_id, user_message, assistant_message)\<close>
  of section 4.7, the backend is missing. Without a \<open>chat_id\<close> a new session is
  created, its title the first 50 characters of the user message, and its id is
  returned; otherwise both Messages are appended to the session of that id that the
  owner owns. The id given to a new session and the clock are arguments.
\<close>

definition store_append ::
  "jsstring \<Rightarrow> int \<Rightarrow> jsstring option \<Rightarrow> jsstring \<Rightarrow> Message \<Rightarrow> Message \<Rightarrow> store \<Rightarrow>
   (store_error + jsstring) \<times> store" where
  "store_append new_id now cid owner um am st =
     (case cid of
        None \<Rightarrow>
          (Inr new_id,
           st @ [\<lparr>session_id = new_id, owner_id = owner, session_title = take 50 (text_of um),
                  session_created_at = now, session_last_message_at = now,
                  session_message_count = 2, session_messages = [um, am]\<rparr>])
      | Some c \<Rightarrow>
          if list_ex (owned c owner) st
          then (Inr c, map (\<lambda>s. if owned c owner s then append_turn now um am s else s) st)
          else (Inl NotFoundError, st))"

text \<open>
  Modelled from the spec: \<open>history(chat_id, owner_id)\<close> of section 4.7, the backend is
  missing.
\<close>

definition store_history :: "jsstring \<Rightarrow> jsstring \<Rightarrow> store \<Rightarrow> store_error + Message list" where
  "store_history cid owner st =
     (case filter (owned cid owner) st of
        [] \<Rightarrow> Inl NotFoundError
      | s # _ \<Rightarrow> Inr (session_messages s))"

text \<open>
  Modelled from the spec: \<open>delete(chat_id, owner_id)\<close> of section 4.7, the backend is
  missing. The session and its Messages are removed; the call fails with
  \<open>NotFoundError\<close> when no session with that id is owned by the caller.
\<close>

definition store_delete ::
  "jsstring \<Rightarrow> jsstring \<Rightarrow> store \<Rightarrow> (store_error + unit) \<times> store" where
  "store_delete cid owner st =
     (if list_ex (owned cid owner) st
      then (Inr (), filter (\<lambda>s. \<not> owned cid owner s) st)
      else (Inl NotFoundError, st))"

text \<open>
  Modelled from the spec: the chat endpoint (sections 4.9 and 6) for a caller \<open>owner\<close>,
  the backend is missing. The answer text and its sources come from retrieval and
  generation, which are external; the user Message carries no sources. A turn that
  cannot be appended is answered with an error status, which axios rejects.
\<close>

definition serve_chat ::
  "jsstring \<Rightarrow> int \<Rightarrow> jsstring \<Rightarrow> jsstring \<Rightarrow> Source list \<Rightarrow> jsstring \<Rightarrow> request \<Rightarrow> store \<Rightarrow>
   ChatResponse option answer \<times> store" where
  "serve_chat new_id now owner answer_text srcs stamp req st =
     (case req of
        PostChat msg cid _ \<Rightarrow>
          (case store_append new_id now cid owner
                  \<lparr>role = User, text_of = msg, attached = []\<rparr>
                  \<lparr>role = Assistant, text_of = answer_text, attached = srcs\<rparr> st of
             (Inr c, st') \<Rightarrow>
               (Resolved (Some \<lparr>res_response = answer_text, res_chat_id = c,
                                res_sources = srcs, res_timestamp = stamp\<rparr>), st')
           | (Inl _, st') \<Rightarrow> (Rejected, st'))
      | _ \<Rightarrow> (Rejected, st))"

text \<open>
  Modelled from the spec: the delete endpoint (section 6) for a caller \<open>owner\<close>, the
  backend is missing. A store error is answered with an error status, which axios
  rejects.
\<close>

definition serve_delete :: "jsstring \<Rightarrow> jsstring \<Rightarrow> store \<Rightarrow> unit answer \<times> store" where
  "serve_delete owner cid st =
     (case store_delete cid owner st of
        (Inr _, st') \<Rightarrow> (Resolved (), st')
      | (Inl _, st') \<Rightarrow> (Rejected, st'))"

section \<open>Sample inputs\<close>

definition sample_source :: Source where
  "sample_source =
     \<lparr>content = js ''Refunds: 14 days'', metadata = [(js ''page'', JNum 2)],
      similarity_score = 3 / 4\<rparr>"

definition sample_response :: ChatResponse where
  "sample_response =
     \<lparr>res_response = js ''14 days'', res_chat_id = js ''c1'',
      res_sources = [sample_source], res_timestamp = js ''2024-01-01T10:00:00Z''\<rparr>"

definition sample_env :: send_env where
  "sample_env =
     \<lparr>post_answer = Resolved (Some sample_response), chats_answer = Resolved [],
      now_user = 1704103200000, now_iso = js ''2024-01-01T10:00:00.000Z'',
      now_ai = 1704103200001\<rparr>"

definition sample_view :: ChatInterface_state where
  "sample_view =
     \<lparr>messages = [], input = js '' refund? '', isLoading = False, loadingHistory = False\<rparr>"

definition sample_hook :: useChat_state where
  "sample_hook = \<lparr>chats = [], loading = False, error = None\<rparr>"

definition blank_view :: ChatInterface_state where
  "blank_view =
     \<lparr>messages = [], input = [0x20, 0x9, 0xA0, 0xA], isLoading = False,
      loadingHistory = False\<rparr>"

definition sample_page :: Page where
  "sample_page =
     \<lparr>dashboard = \<lparr>currentChatId = None, isSidebarOpen = True, isUploadDialogOpen = False\<rparr>,
      dashboard_hook = sample_hook, chat_view = sample_view, chat_view_hook = sample_hook,
      trace = []\<rparr>"

definition overscored_response :: ChatResponse where
  "overscored_response =
     sample_response\<lparr>res_sources := [sample_source\<lparr>similarity_score := 3 / 2\<rparr>]\<rparr>"

definition pdf_file :: File where
  "pdf_file = \<lparr>file_name = js ''a.pdf'', file_type = js ''application/pdf'', file_size = 1536\<rparr>"

definition text_file :: File where
  "text_file = \<lparr>file_name = js ''a.txt'', file_type = js ''text/plain'', file_size = 12\<rparr>"

definition sample_getTime :: "jsstring \<Rightarrow> int option" where
  "sample_getTime s =
     (if s = js ''2024-01-01T10:00:00Z'' then Some 1704103200000
      else if s = js ''2024-01-02T10:00:00Z'' then Some 1704189600000
      else None)"

definition older_chat :: Chat where
  "older_chat =
     \<lparr>chat_id = js ''c1'', title = js ''refund?'', created_at = js ''2024-01-01T10:00:00Z'',
      last_message_at = js ''2024-01-01T10:00:00Z'', message_count = 2\<rparr>"

definition newer_chat :: Chat where
  "newer_chat =
     \<lparr>chat_id = js ''c2'', title = js ''shipping?'', created_at = js ''2024-01-02T10:00:00Z'',
      last_message_at = js ''2024-01-02T10:00:00Z'', message_count = 4\<rparr>"

definition alice_session :: ChatSession where
  "alice_session =
     \<lparr>session_id = js ''c1'', owner_id = js ''alice'', session_title = js ''refund?'',
      session_created_at = 1704103200000, session_last_message_at = 1704103200000,
      session_message_count = 2,
      session_messages =
        [\<lparr>role = User, text_of = js ''refund?'', attached = []\<rparr>,
         \<lparr>role = Assistant, text_of = js ''14 days'', attached = [sample_source]\<rparr>]\<rparr>"

definition second_page :: Page where
  "second_page =
     (send_turn sample_env (Resolved []) sample_page)
       \<lparr>chat_view :=
          (chat_view (send_turn sample_env (Resolved []) sample_page))\<lparr>input := js ''more?''\<rparr>\<rparr>"

section \<open>Auxiliary facts\<close>

lemma trim_blank: "(\<forall>c \<in> set s. is_whitespace c) \<Longrightarrow> trim s = []"
proof -
  assume "\<forall>c \<in> set s. is_whitespace c"
  then have d: "dropWhile is_whitespace s = []" by (simp add: dropWhile_eq_Nil_conv)
  show ?thesis unfolding trim_def d by simp
qed

lemma js_assistant_not_user: "js ''assistant'' \<noteq> js ''user''"
  by (simp add: js_def)

lemma trim_sample_view: "trim (input sample_view) = js ''refund?''"
  by (simp add: sample_view_def trim_def js_def is_whitespace_def)

lemma js_refund_not_empty: "js ''refund?'' \<noteq> []"
  by (simp add: js_def)

lemma sample_view_fields: "\<not> isLoading sample_view" "messages sample_view = []"
  by (simp_all add: sample_view_def)

lemma sample_turn_messages:
  "messages (fst (handleSend sample_env None sample_view sample_hook)) =
     [newUserMessage sample_env (js ''refund?'') sample_response,
      newAiMessage sample_env sample_response]"
  by (simp add: handleSend_def sendMessage_def fetchChats_def trim_sample_view
      js_refund_not_empty sample_view_fields sample_env_def Let_def)

lemma handleSend_request:
  assumes "trim (input ci) \<noteq> []" and "\<not> isLoading ci"
  shows "Request (PostChat (trim (input ci)) chatId True) \<in>
           set (fst (snd (snd (handleSend env chatId ci h))))"
  using assms
  by (auto simp: handleSend_def sendMessage_def Let_def split_def
      split: answer.splits option.splits)

lemma handleSend_created:
  assumes "trim (input ci) \<noteq> []" and "\<not> isLoading ci"
    and "post_answer env = Resolved (Some r)"
  shows "snd (snd (snd (handleSend env chatId ci h))) =
           (if truthy chatId then None else Some (res_chat_id r))"
  using assms
  by (simp add: handleSend_def sendMessage_def Let_def split_def)

lemma handleSend_not_created:
  assumes "truthy chatId"
  shows "snd (snd (snd (handleSend env chatId ci h))) = None"
  using assms
  by (auto simp: handleSend_def sendMessage_def Let_def split_def
      split: answer.splits option.splits)

lemma send_turn_trace:
  "set (fst (snd (snd (handleSend env (currentChatId (dashboard p)) (chat_view p)
      (chat_view_hook p))))) \<subseteq> set (trace (send_turn env refetch_ans p))"
  by (auto simp: send_turn_def Let_def split_def onChatCreated_def split: option.splits)

lemma send_turn_adopts:
  assumes "snd (snd (snd (handleSend env (currentChatId (dashboard p)) (chat_view p)
      (chat_view_hook p)))) = Some c"
  shows "currentChatId (dashboard (send_turn env refetch_ans p)) = Some c"
  using assms by (simp add: send_turn_def Let_def split_def onChatCreated_def)

lemma send_turn_keeps:
  assumes "snd (snd (snd (handleSend env (currentChatId (dashboard p)) (chat_view p)
      (chat_view_hook p)))) = None"
  shows "dashboard (send_turn env refetch_ans p) = dashboard p"
  using assms by (simp add: send_turn_def Let_def split_def)

section \<open>A turn is shown as a pair or not at all\<close>

lemma handleSend_pair_or_nothing:
  "(trim (input ci) \<noteq> [] \<and> \<not> isLoading ci \<and>
    fst (sendMessage (post_answer env) (chats_answer env) (trim (input ci)) chatId h) = Some r \<longrightarrow>
      messages (fst (handleSend env chatId ci h)) =
        messages ci @ [newUserMessage env (trim (input ci)) r, newAiMessage env r]) \<and>
   (fst (sendMessage (post_answer env) (chats_answer env) (trim (input ci)) chatId h) = None \<longrightarrow>
      messages (fst (handleSend env chatId ci h)) = messages ci \<and>
      snd (snd (snd (handleSend env chatId ci h))) = None) \<and>
   (messages (fst (handleSend env chatId ci h)) = messages ci \<or>
    (\<exists>r'. messages (fst (handleSend env chatId ci h)) =
        messages ci @ [newUserMessage env (trim (input ci)) r', newAiMessage env r']))"
  by (auto simp: handleSend_def sendMessage_def Let_def split_def
      split: answer.splits option.splits)

lemma handleSend_created_new:
  assumes "trim (input ci) \<noteq> []" and "\<not> isLoading ci"
    and "fst (sendMessage (post_answer env) (chats_answer env) (trim (input ci)) chatId h) = Some r"
    and "\<not> truthy chatId"
  shows "snd (snd (snd (handleSend env chatId ci h))) = Some (res_chat_id r)"
  using assms
  by (auto simp: handleSend_def sendMessage_def Let_def split_def
      split: answer.splits option.splits)

lemma chat_view_send_turn:
  "chat_view (send_turn env refetch_ans p) =
     fst (handleSend env (currentChatId (dashboard p)) (chat_view p) (chat_view_hook p))"
  by (simp add: send_turn_def Let_def split_def onChatCreated_def split: option.splits)

lemma page_turn_same_chat:
  assumes "dashboard (send_turn env refetch_ans p) = dashboard p"
  shows "page_turn env refetch_ans hist_ans p = send_turn env refetch_ans p"
  using assms by (simp add: page_turn_def Let_def)

lemma currentChatId_page_turn:
  "currentChatId (dashboard (page_turn env refetch_ans hist_ans p)) =
     currentChatId (dashboard (send_turn env refetch_ans p))"
  by (simp add: page_turn_def Let_def split_def)

lemma page_turn_new_chat:
  assumes "currentChatId (dashboard (send_turn env refetch_ans p)) = Some c"
    and "currentChatId (dashboard p) \<noteq> Some c"
  shows "messages (chat_view (page_turn env refetch_ans hist_ans p)) =
           (if c = [] then [] else fst (getChatHistory hist_ans c))"
  using assms by (simp add: page_turn_def Let_def split_def chatId_effect_def)

lemma not_truthy_cases: "\<not> truthy x \<longleftrightarrow> x = None \<or> x = Some []"
  by (cases x) simp_all

lemma page_turn_messages_cases:
  "messages (chat_view (page_turn env refetch_ans hist_ans p)) = messages (chat_view p) \<or>
   (\<exists>r'. messages (chat_view (page_turn env refetch_ans hist_ans p)) =
      messages (chat_view p) @
        [newUserMessage env (trim (input (chat_view p))) r', newAiMessage env r']) \<or>
   messages (chat_view (page_turn env refetch_ans hist_ans p)) = [] \<or>
   (\<exists>c. messages (chat_view (page_turn env refetch_ans hist_ans p)) =
      fst (getChatHistory hist_ans c))"
proof (cases "currentChatId (dashboard (send_turn env refetch_ans p)) =
    currentChatId (dashboard p)")
  case True
  then have "page_turn env refetch_ans hist_ans p = send_turn env refetch_ans p"
    by (simp add: page_turn_def Let_def)
  then show ?thesis
    using handleSend_pair_or_nothing
      [of "chat_view p" env "currentChatId (dashboard p)" "chat_view_hook p"]
    by (simp add: chat_view_send_turn) blast
next
  case False
  show ?thesis
  proof (cases "currentChatId (dashboard (send_turn env refetch_ans p))")
    case None
    with False show ?thesis
      by (simp add: page_turn_def Let_def split_def chatId_effect_def)
  next
    case (Some c)
    with False have "currentChatId (dashboard p) \<noteq> Some c" by simp
    from page_turn_new_chat [OF Some this, of hist_ans] show ?thesis
      by (cases "c = []") auto
  qed
qed

text \<open>
  C1, as the page has it. The two messages of a turn are the user message with the
  trimmed input and the assistant message with the text, sources and timestamp of the
  response. A turn for which \<open>sendMessage\<close> yields no response leaves the message list
  unchanged. A successful turn on an existing chat grows the list by exactly these two
  entries, the user message first. A successful turn sent without a chat id commits the
  same pair in the handler and makes the returned id the current chat; the effect on the
  changed \<open>chatId\<close> then replaces the list by the history reloaded for that id, which
  is empty when the reload fails. In every case the list afterwards is the old list, the
  old list followed by such a pair, the empty list or a reloaded history, so the chat
  view never writes a user message without its assistant message.
\<close>

theorem page_turn_commits_pair:
  "newUserMessage env (trim (input (chat_view p))) r =
     \<lparr>msg_id = js ''user-'' @ js (show_nat (now_user env)), msg_chat_id = res_chat_id r,
      msg_user_id = [], message = trim (input (chat_view p)), response = [],
      message_type = js ''user'', sources = [], timestamp = now_iso env,
      msg_metadata = []\<rparr> \<and>
   newAiMessage env r =
     \<lparr>msg_id = js ''ai-'' @ js (show_nat (now_ai env)), msg_chat_id = res_chat_id r,
      msg_user_id = [], message = [], response = res_response r,
      message_type = js ''assistant'', sources = res_sources r, timestamp = res_timestamp r,
      msg_metadata = []\<rparr> \<and>
   (truthy (currentChatId (dashboard p)) \<and> trim (input (chat_view p)) \<noteq> [] \<and>
    \<not> isLoading (chat_view p) \<and>
    fst (sendMessage (post_answer env) (chats_answer env) (trim (input (chat_view p)))
           (currentChatId (dashboard p)) (chat_view_hook p)) = Some r \<longrightarrow>
      messages (chat_view (page_turn env refetch_ans hist_ans p)) =
        messages (chat_view p) @
          [newUserMessage env (trim (input (chat_view p))) r, newAiMessage env r] \<and>
      length (messages (chat_view (page_turn env refetch_ans hist_ans p))) =
        length (messages (chat_view p)) + 2) \<and>
   (fst (sendMessage (post_answer env) (chats_answer env) (trim (input (chat_view p)))
           (currentChatId (dashboard p)) (chat_view_hook p)) = None \<longrightarrow>
      messages (chat_view (page_turn env refetch_ans hist_ans p)) = messages (chat_view p)) \<and>
   (\<not> truthy (currentChatId (dashboard p)) \<and> trim (input (chat_view p)) \<noteq> [] \<and>
    \<not> isLoading (chat_view p) \<and>
    fst (sendMessage (post_answer env) (chats_answer env) (trim (input (chat_view p)))
           (currentChatId (dashboard p)) (chat_view_hook p)) = Some r \<longrightarrow>
      messages (chat_view (send_turn env refetch_ans p)) =
        messages (chat_view p) @
          [newUserMessage env (trim (input (chat_view p))) r, newAiMessage env r] \<and>
      currentChatId (dashboard (page_turn env refetch_ans hist_ans p)) =
        Some (res_chat_id r) \<and>
      (res_chat_id r \<noteq> [] \<and> hist_ans = Resolved hs \<longrightarrow>
         messages (chat_view (page_turn env refetch_ans hist_ans p)) = hs) \<and>
      (res_chat_id r \<noteq> [] \<and> hist_ans = Rejected \<longrightarrow>
         messages (chat_view (page_turn env refetch_ans hist_ans p)) = [])) \<and>
   (messages (chat_view (page_turn env refetch_ans hist_ans p)) = messages (chat_view p) \<or>
    (\<exists>r'. messages (chat_view (page_turn env refetch_ans hist_ans p)) =
       messages (chat_view p) @
         [newUserMessage env (trim (input (chat_view p))) r', newAiMessage env r']) \<or>
    messages (chat_view (page_turn env refetch_ans hist_ans p)) = [] \<or>
    (\<exists>c. messages (chat_view (page_turn env refetch_ans hist_ans p)) =
       fst (getChatHistory hist_ans c)))"
proof -
  let ?ci = "chat_view p" and ?cur = "currentChatId (dashboard p)" and ?h = "chat_view_hook p"
  let ?resp = "fst (sendMessage (post_answer env) (chats_answer env) (trim (input ?ci)) ?cur ?h)"
  let ?pair = "[newUserMessage env (trim (input ?ci)) r, newAiMessage env r]"
  note hs = handleSend_pair_or_nothing [of ?ci env ?cur ?h r]
  have user: "newUserMessage env (trim (input (chat_view p))) r =
     \<lparr>msg_id = js ''user-'' @ js (show_nat (now_user env)), msg_chat_id = res_chat_id r,
      msg_user_id = [], message = trim (input (chat_view p)), response = [],
      message_type = js ''user'', sources = [], timestamp = now_iso env,
      msg_metadata = []\<rparr>"
    by (simp add: newUserMessage_def)
  have ai: "newAiMessage env r =
     \<lparr>msg_id = js ''ai-'' @ js (show_nat (now_ai env)), msg_chat_id = res_chat_id r,
      msg_user_id = [], message = [], response = res_response r,
      message_type = js ''assistant'', sources = res_sources r, timestamp = res_timestamp r,
      msg_metadata = []\<rparr>"
    by (simp add: newAiMessage_def)
  have existing: "messages (chat_view (page_turn env refetch_ans hist_ans p)) =
        messages ?ci @ ?pair \<and>
      length (messages (chat_view (page_turn env refetch_ans hist_ans p))) =
        length (messages ?ci) + 2"
    if h: "truthy ?cur \<and> trim (input ?ci) \<noteq> [] \<and> \<not> isLoading ?ci \<and> ?resp = Some r"
  proof -
    from h have "snd (snd (snd (handleSend env ?cur ?ci ?h))) = None"
      by (intro handleSend_not_created) simp
    then have "dashboard (send_turn env refetch_ans p) = dashboard p"
      by (rule send_turn_keeps)
    then have "page_turn env refetch_ans hist_ans p = send_turn env refetch_ans p"
      by (rule page_turn_same_chat)
    then have "messages (chat_view (page_turn env refetch_ans hist_ans p)) =
        messages (fst (handleSend env ?cur ?ci ?h))"
      by (simp add: chat_view_send_turn)
    with hs h have "messages (chat_view (page_turn env refetch_ans hist_ans p)) =
        messages ?ci @ ?pair"
      by simp
    then show ?thesis by simp
  qed
  have failed: "messages (chat_view (page_turn env refetch_ans hist_ans p)) = messages ?ci"
    if h: "?resp = None"
  proof -
    from hs h have m: "messages (fst (handleSend env ?cur ?ci ?h)) = messages ?ci"
      and c: "snd (snd (snd (handleSend env ?cur ?ci ?h))) = None"
      by blast+
    from c have "dashboard (send_turn env refetch_ans p) = dashboard p"
      by (rule send_turn_keeps)
    then have "page_turn env refetch_ans hist_ans p = send_turn env refetch_ans p"
      by (rule page_turn_same_chat)
    with m show ?thesis by (simp add: chat_view_send_turn)
  qed
  have created: "messages (chat_view (send_turn env refetch_ans p)) = messages ?ci @ ?pair \<and>
      currentChatId (dashboard (page_turn env refetch_ans hist_ans p)) = Some (res_chat_id r) \<and>
      (res_chat_id r \<noteq> [] \<and> hist_ans = Resolved hs \<longrightarrow>
         messages (chat_view (page_turn env refetch_ans hist_ans p)) = hs) \<and>
      (res_chat_id r \<noteq> [] \<and> hist_ans = Rejected \<longrightarrow>
         messages (chat_view (page_turn env refetch_ans hist_ans p)) = [])"
    if h: "\<not> truthy ?cur \<and> trim (input ?ci) \<noteq> [] \<and> \<not> isLoading ?ci \<and> ?resp = Some r"
  proof -
    from hs h have m: "messages (chat_view (send_turn env refetch_ans p)) = messages ?ci @ ?pair"
      by (simp add: chat_view_send_turn)
    from h have "snd (snd (snd (handleSend env ?cur ?ci ?h))) = Some (res_chat_id r)"
      by (intro handleSend_created_new) simp_all
    then have cur': "currentChatId (dashboard (send_turn env refetch_ans p)) =
        Some (res_chat_id r)"
      by (rule send_turn_adopts)
    then have adopted: "currentChatId (dashboard (page_turn env refetch_ans hist_ans p)) =
        Some (res_chat_id r)"
      by (simp add: currentChatId_page_turn)
    have reload: "messages (chat_view (page_turn env refetch_ans hist_ans p)) =
        fst (getChatHistory hist_ans (res_chat_id r))"
      if ne: "res_chat_id r \<noteq> []"
    proof -
      from h have "?cur = None \<or> ?cur = Some []" by (simp add: not_truthy_cases)
      with ne have "?cur \<noteq> Some (res_chat_id r)" by auto
      from page_turn_new_chat [OF cur' this, of hist_ans] ne show ?thesis by simp
    qed
    from m adopted reload show ?thesis
      by (auto simp: getChatHistory_def)
  qed
  from user ai existing failed created
    page_turn_messages_cases [of env refetch_ans hist_ans p]
  show ?thesis by blast
qed

theorem page_turn_commits_pair_witness:
  "truthy (currentChatId (dashboard second_page)) \<and>
   messages (chat_view second_page) =
     [newUserMessage sample_env (js ''refund?'') sample_response,
      newAiMessage sample_env sample_response] \<and>
   messages (chat_view (page_turn sample_env (Resolved []) Rejected second_page)) =
     [newUserMessage sample_env (js ''refund?'') sample_response,
      newAiMessage sample_env sample_response,
      newUserMessage sample_env (js ''more?'') sample_response,
      newAiMessage sample_env sample_response] \<and>
   message (newUserMessage sample_env (js ''more?'') sample_response) = js ''more?'' \<and>
   response (newAiMessage sample_env sample_response) = js ''14 days'' \<and>
   messages (chat_view
       (page_turn (sample_env\<lparr>post_answer := Rejected\<rparr>) (Resolved []) Rejected second_page)) =
     [newUserMessage sample_env (js ''refund?'') sample_response,
      newAiMessage sample_env sample_response] \<and>
   currentChatId (dashboard sample_page) = None \<and>
   messages (chat_view (send_turn sample_env (Resolved []) sample_page)) =
     [newUserMessage sample_env (js ''refund?'') sample_response,
      newAiMessage sample_env sample_response] \<and>
   currentChatId (dashboard
       (page_turn sample_env (Resolved [])
          (Resolved [newAiMessage sample_env sample_response]) sample_page)) = Some (js ''c1'') \<and>
   messages (chat_view
       (page_turn sample_env (Resolved [])
          (Resolved [newAiMessage sample_env sample_response]) sample_page)) =
     [newAiMessage sample_env sample_response]"
proof -
  have p0: "currentChatId (dashboard sample_page) = None" "chat_view sample_page = sample_view"
    "chat_view_hook sample_page = sample_hook"
    by (simp_all add: sample_page_def)
  have sent: "fst (sendMessage (post_answer sample_env) ca m c h) = Some sample_response"
    for ca m c h
    by (simp add: sendMessage_def sample_env_def split_def Let_def)
  have lost: "fst (sendMessage (post_answer (sample_env\<lparr>post_answer := Rejected\<rparr>)) ca m c h) = None"
    for ca m c h
    by (simp add: sendMessage_def)
  have id1: "res_chat_id sample_response = js ''c1''" by (simp add: sample_response_def)
  have c1: "js ''c1'' \<noteq> []" by (simp add: js_def)
  have more: "trim (js ''more?'') = js ''more?''" "js ''more?'' \<noteq> []"
    by (simp_all add: trim_def js_def is_whitespace_def)
  have v1: "chat_view (send_turn sample_env (Resolved []) sample_page) =
      fst (handleSend sample_env None sample_view sample_hook)"
    by (simp add: chat_view_send_turn p0)
  have l1: "\<not> isLoading (fst (handleSend sample_env None sample_view sample_hook))"
    by (simp add: handleSend_def sendMessage_def fetchChats_def trim_sample_view
        js_refund_not_empty sample_view_fields sample_env_def Let_def)
  have "snd (snd (snd (handleSend sample_env None sample_view sample_hook))) =
      Some (res_chat_id sample_response)"
    by (intro handleSend_created_new)
      (simp_all add: trim_sample_view js_refund_not_empty sample_view_fields sent)
  then have cur1: "currentChatId (dashboard (send_turn sample_env (Resolved []) sample_page)) =
      Some (js ''c1'')"
    using send_turn_adopts [of sample_env sample_page "js ''c1''" "Resolved []"]
    by (simp add: p0 id1)
  have s2: "currentChatId (dashboard second_page) = Some (js ''c1'')"
    "messages (chat_view second_page) =
       [newUserMessage sample_env (js ''refund?'') sample_response,
        newAiMessage sample_env sample_response]"
    "input (chat_view second_page) = js ''more?''"
    "\<not> isLoading (chat_view second_page)"
    using cur1 l1 by (simp_all add: second_page_def v1 sample_turn_messages)
  note new = page_turn_commits_pair
    [where p = sample_page and env = sample_env and r = sample_response
       and refetch_ans = "Resolved []"
       and hist_ans = "Resolved [newAiMessage sample_env sample_response]"
       and hs = "[newAiMessage sample_env sample_response]"]
  note old = page_turn_commits_pair
    [where p = second_page and env = sample_env and r = sample_response
       and refetch_ans = "Resolved []" and hist_ans = Rejected]
  note bad = page_turn_commits_pair
    [where p = second_page and env = "sample_env\<lparr>post_answer := Rejected\<rparr>"
       and refetch_ans = "Resolved []" and hist_ans = Rejected]
  have h_old: "truthy (currentChatId (dashboard second_page)) \<and>
      trim (input (chat_view second_page)) \<noteq> [] \<and> \<not> isLoading (chat_view second_page) \<and>
      fst (sendMessage (post_answer sample_env) (chats_answer sample_env)
             (trim (input (chat_view second_page))) (currentChatId (dashboard second_page))
             (chat_view_hook second_page)) = Some sample_response"
    by (simp add: s2 c1 more sent)
  from old h_old
  have w_old: "messages (chat_view (page_turn sample_env (Resolved []) Rejected second_page)) =
      messages (chat_view second_page) @
        [newUserMessage sample_env (trim (input (chat_view second_page))) sample_response,
         newAiMessage sample_env sample_response]"
    by blast
  have h_bad: "fst (sendMessage (post_answer (sample_env\<lparr>post_answer := Rejected\<rparr>))
             (chats_answer (sample_env\<lparr>post_answer := Rejected\<rparr>))
             (trim (input (chat_view second_page))) (currentChatId (dashboard second_page))
             (chat_view_hook second_page)) = None"
    by (rule lost)
  from bad h_bad
  have w_bad: "messages (chat_view
       (page_turn (sample_env\<lparr>post_answer := Rejected\<rparr>) (Resolved []) Rejected second_page)) =
      messages (chat_view second_page)"
    by blast
  have h_new: "\<not> truthy (currentChatId (dashboard sample_page)) \<and>
      trim (input (chat_view sample_page)) \<noteq> [] \<and> \<not> isLoading (chat_view sample_page) \<and>
      fst (sendMessage (post_answer sample_env) (chats_answer sample_env)
             (trim (input (chat_view sample_page))) (currentChatId (dashboard sample_page))
             (chat_view_hook sample_page)) = Some sample_response"
    by (simp add: p0 trim_sample_view js_refund_not_empty sample_view_fields sent)
  have h_hist: "res_chat_id sample_response \<noteq> [] \<and>
      Resolved [newAiMessage sample_env sample_response] =
      Resolved [newAiMessage sample_env sample_response]"
    by (simp add: id1 c1)
  from new h_new h_hist
  have w_new: "messages (chat_view (send_turn sample_env (Resolved []) sample_page)) =
        messages (chat_view sample_page) @
          [newUserMessage sample_env (trim (input (chat_view sample_page))) sample_response,
           newAiMessage sample_env sample_response]"
    "currentChatId (dashboard
       (page_turn sample_env (Resolved [])
          (Resolved [newAiMessage sample_env sample_response]) sample_page)) =
        Some (res_chat_id sample_response)"
    "messages (chat_view
       (page_turn sample_env (Resolved [])
          (Resolved [newAiMessage sample_env sample_response]) sample_page)) =
     [newAiMessage sample_env sample_response]"
    by blast+
  have f: "message (newUserMessage sample_env (js ''more?'') sample_response) = js ''more?''"
    "response (newAiMessage sample_env sample_response) = js ''14 days''"
    by (simp_all add: newUserMessage_def newAiMessage_def sample_response_def)
  from h_old s2(2) w_old w_bad p0(1) w_new f show ?thesis
    by (simp add: s2 more p0 trim_sample_view sample_view_fields id1)
qed

text \<open>
  On a page with no current chat a turn succeeds, and the reload of the history for the
  new chat fails: the message list, empty before the turn, is empty after it.
\<close>

theorem page_turn_counterexample:
  "fst (sendMessage (post_answer sample_env) (chats_answer sample_env)
          (trim (input (chat_view sample_page))) (currentChatId (dashboard sample_page))
          (chat_view_hook sample_page)) = Some sample_response \<and>
   messages (chat_view sample_page) = [] \<and>
   messages (chat_view (page_turn sample_env (Resolved []) Rejected sample_page)) = [] \<and>
   length (messages (chat_view (page_turn sample_env (Resolved []) Rejected sample_page))) \<noteq>
     length (messages (chat_view sample_page)) + 2"
proof -
  have p0: "currentChatId (dashboard sample_page) = None" "chat_view sample_page = sample_view"
    "chat_view_hook sample_page = sample_hook"
    by (simp_all add: sample_page_def)
  have sent: "fst (sendMessage (post_answer sample_env) (chats_answer sample_env)
          (trim (input (chat_view sample_page))) (currentChatId (dashboard sample_page))
          (chat_view_hook sample_page)) = Some sample_response"
    by (simp add: sendMessage_def sample_env_def split_def Let_def)
  have id1: "res_chat_id sample_response = js ''c1''" by (simp add: sample_response_def)
  have c1: "js ''c1'' \<noteq> []" by (simp add: js_def)
  have "snd (snd (snd (handleSend sample_env None sample_view sample_hook))) =
      Some (res_chat_id sample_response)"
    using sent
    by (intro handleSend_created_new)
      (simp_all add: trim_sample_view js_refund_not_empty sample_view_fields p0)
  then have cur1: "currentChatId (dashboard (send_turn sample_env (Resolved []) sample_page)) =
      Some (js ''c1'')"
    using send_turn_adopts [of sample_env sample_page "js ''c1''" "Resolved []"]
    by (simp add: p0 id1)
  have "currentChatId (dashboard sample_page) \<noteq> Some (js ''c1'')" by (simp add: p0)
  from page_turn_new_chat [OF cur1 this, of Rejected] c1
  have e: "messages (chat_view (page_turn sample_env (Resolved []) Rejected sample_page)) = []"
    by (simp add: getChatHistory_def)
  from sent e show ?thesis by (simp add: p0 sample_view_fields)
qed

section \<open>A new chat and the id it is given\<close>

lemma filter_owned_fresh:
  assumes "\<not> list_ex (\<lambda>s. session_id s = cid) st"
  shows "filter (owned cid owner) st = []"
  using assms by (induction st) (simp_all add: owned_def)

lemma map_not_owned:
  assumes "\<not> list_ex (\<lambda>s. session_id s = cid) st"
  shows "map (\<lambda>s. if owned cid owner s then f s else s) st = st"
  using assms by (induction st) (simp_all add: owned_def)

lemma append_new_session:
  "store_append new_id now None owner um am st =
     (Inr new_id,
      st @ [\<lparr>session_id = new_id, owner_id = owner, session_title = take 50 (text_of um),
             session_created_at = now, session_last_message_at = now,
             session_message_count = 2, session_messages = [um, am]\<rparr>])"
  by (simp add: store_append_def)

lemma history_after_new_session:
  assumes "\<not> list_ex (\<lambda>s. session_id s = new_id) st"
  shows "store_history new_id owner (snd (store_append new_id now None owner um am st)) =
           Inr [um, am]"
  using filter_owned_fresh [OF assms, of owner]
  by (simp add: append_new_session store_history_def owned_def)

lemma append_to_new_session:
  assumes "\<not> list_ex (\<lambda>s. session_id s = new_id) st"
  shows "fst (store_append other_id later (Some new_id) owner um' am'
                (snd (store_append new_id now None owner um am st))) = Inr new_id \<and>
         store_history new_id owner
           (snd (store_append other_id later (Some new_id) owner um' am'
                  (snd (store_append new_id now None owner um am st)))) =
           Inr [um, am, um', am']"
proof -
  let ?s = "\<lparr>session_id = new_id, owner_id = owner, session_title = take 50 (text_of um),
             session_created_at = now, session_last_message_at = now,
             session_message_count = 2, session_messages = [um, am]\<rparr>"
  have own: "owned new_id owner ?s" by (simp add: owned_def)
  have ex: "list_ex (owned new_id owner) (st @ [?s])" using own by simp
  have app: "store_append other_id later (Some new_id) owner um' am' (st @ [?s]) =
      (Inr new_id, st @ [append_turn later um' am' ?s])"
    using ex own map_not_owned [OF assms, of owner "append_turn later um' am'"]
    by (simp add: store_append_def)
  have own': "owned new_id owner (append_turn later um' am' ?s)"
    by (simp add: owned_def append_turn_def)
  have hist: "store_history new_id owner (st @ [append_turn later um' am' ?s]) =
      Inr [um, am, um', am']"
    using filter_owned_fresh [OF assms, of owner] own'
    by (simp add: store_history_def) (simp add: append_turn_def)
  show ?thesis
    by (simp add: append_new_session app hist)
qed

text \<open>
  C2. A turn sent without a \<open>chat_id\<close> makes the store create a new session, and the
  response carries the id of that session. The caller adopts the id it is given: after a
  turn sent while the page has no current chat, the current chat is the \<open>chat_id\<close> of
  the response. Every turn sent while the page has a current chat carries that id and
  leaves it the current chat, and the store appends such a turn to the session created
  first.
\<close>

theorem new_chat_id_adopted:
  "serve_chat new_id now owner answer_text srcs stamp (PostChat msg None inc) st =
     (Resolved (Some \<lparr>res_response = answer_text, res_chat_id = new_id, res_sources = srcs,
                      res_timestamp = stamp\<rparr>),
      st @ [\<lparr>session_id = new_id, owner_id = owner, session_title = take 50 msg,
             session_created_at = now, session_last_message_at = now,
             session_message_count = 2,
             session_messages =
               [\<lparr>role = User, text_of = msg, attached = []\<rparr>,
                \<lparr>role = Assistant, text_of = answer_text, attached = srcs\<rparr>]\<rparr>]) \<and>
   (\<not> truthy (currentChatId (dashboard p)) \<and> trim (input (chat_view p)) \<noteq> [] \<and>
    \<not> isLoading (chat_view p) \<and> post_answer env = Resolved (Some r) \<longrightarrow>
      Request (PostChat (trim (input (chat_view p))) (currentChatId (dashboard p)) True) \<in>
        set (trace (send_turn env refetch_ans p)) \<and>
      currentChatId (dashboard (send_turn env refetch_ans p)) = Some (res_chat_id r)) \<and>
   (currentChatId (dashboard p) = Some c \<and> c \<noteq> [] \<and> trim (input (chat_view p)) \<noteq> [] \<and>
    \<not> isLoading (chat_view p) \<longrightarrow>
      Request (PostChat (trim (input (chat_view p))) (Some c) True) \<in>
        set (trace (send_turn env refetch_ans p)) \<and>
      currentChatId (dashboard (send_turn env refetch_ans p)) = Some c) \<and>
   (\<not> list_ex (\<lambda>s. session_id s = new_id) st \<longrightarrow>
      store_history new_id owner (snd (store_append new_id now None owner um am st)) =
        Inr [um, am] \<and>
      fst (store_append other_id later (Some new_id) owner um' am'
             (snd (store_append new_id now None owner um am st))) = Inr new_id \<and>
      store_history new_id owner
        (snd (store_append other_id later (Some new_id) owner um' am'
               (snd (store_append new_id now None owner um am st)))) =
        Inr [um, am, um', am'])"
proof -
  have created: "serve_chat new_id now owner answer_text srcs stamp (PostChat msg None inc) st =
     (Resolved (Some \<lparr>res_response = answer_text, res_chat_id = new_id, res_sources = srcs,
                      res_timestamp = stamp\<rparr>),
      st @ [\<lparr>session_id = new_id, owner_id = owner, session_title = take 50 msg,
             session_created_at = now, session_last_message_at = now,
             session_message_count = 2,
             session_messages =
               [\<lparr>role = User, text_of = msg, attached = []\<rparr>,
                \<lparr>role = Assistant, text_of = answer_text, attached = srcs\<rparr>]\<rparr>])"
    by (simp add: serve_chat_def append_new_session)
  have adopt: "Request (PostChat (trim (input (chat_view p))) (currentChatId (dashboard p)) True) \<in>
        set (trace (send_turn env refetch_ans p)) \<and>
      currentChatId (dashboard (send_turn env refetch_ans p)) = Some (res_chat_id r)"
    if h: "\<not> truthy (currentChatId (dashboard p)) \<and> trim (input (chat_view p)) \<noteq> [] \<and>
      \<not> isLoading (chat_view p) \<and> post_answer env = Resolved (Some r)"
  proof -
    from h have "Request (PostChat (trim (input (chat_view p))) (currentChatId (dashboard p)) True)
        \<in> set (fst (snd (snd (handleSend env (currentChatId (dashboard p)) (chat_view p)
              (chat_view_hook p)))))"
      by (intro handleSend_request) simp_all
    with send_turn_trace [of env p refetch_ans]
    have req: "Request (PostChat (trim (input (chat_view p))) (currentChatId (dashboard p)) True)
        \<in> set (trace (send_turn env refetch_ans p))"
      by blast
    from h have "snd (snd (snd (handleSend env (currentChatId (dashboard p)) (chat_view p)
        (chat_view_hook p)))) = Some (res_chat_id r)"
      by (simp add: handleSend_created [of "chat_view p" env r])
    then have "currentChatId (dashboard (send_turn env refetch_ans p)) = Some (res_chat_id r)"
      by (rule send_turn_adopts)
    with req show ?thesis by simp
  qed
  have later_turns: "Request (PostChat (trim (input (chat_view p))) (Some c) True) \<in>
        set (trace (send_turn env refetch_ans p)) \<and>
      currentChatId (dashboard (send_turn env refetch_ans p)) = Some c"
    if h: "currentChatId (dashboard p) = Some c \<and> c \<noteq> [] \<and> trim (input (chat_view p)) \<noteq> [] \<and>
      \<not> isLoading (chat_view p)"
  proof -
    from h have "Request (PostChat (trim (input (chat_view p))) (currentChatId (dashboard p)) True)
        \<in> set (fst (snd (snd (handleSend env (currentChatId (dashboard p)) (chat_view p)
              (chat_view_hook p)))))"
      by (intro handleSend_request) simp_all
    with send_turn_trace [of env p refetch_ans] h
    have req: "Request (PostChat (trim (input (chat_view p))) (Some c) True)
        \<in> set (trace (send_turn env refetch_ans p))"
      by auto
    from h have "truthy (currentChatId (dashboard p))" by simp
    then have "snd (snd (snd (handleSend env (currentChatId (dashboard p)) (chat_view p)
        (chat_view_hook p)))) = None"
      by (rule handleSend_not_created)
    then have "dashboard (send_turn env refetch_ans p) = dashboard p"
      by (rule send_turn_keeps)
    with h req show ?thesis by simp
  qed
  have appended: "store_history new_id owner (snd (store_append new_id now None owner um am st)) =
        Inr [um, am] \<and>
      fst (store_append other_id later (Some new_id) owner um' am'
             (snd (store_append new_id now None owner um am st))) = Inr new_id \<and>
      store_history new_id owner
        (snd (store_append other_id later (Some new_id) owner um' am'
               (snd (store_append new_id now None owner um am st)))) =
        Inr [um, am, um', am']"
    if "\<not> list_ex (\<lambda>s. session_id s = new_id) st"
    using history_after_new_session [OF that] append_to_new_session [OF that] by blast
  from created adopt later_turns appended show ?thesis by blast
qed

theorem new_chat_id_adopted_witness:
  "serve_chat (js ''c1'') 1704103200000 (js ''alice'') (js ''14 days'') [sample_source]
       (js ''2024-01-01T10:00:00Z'') (PostChat (js ''refund?'') None True) [] =
     (Resolved (Some sample_response), [alice_session]) \<and>
   currentChatId (dashboard sample_page) = None \<and>
   post_answer sample_env = Resolved (Some sample_response) \<and>
   currentChatId (dashboard (send_turn sample_env (Resolved []) sample_page)) = Some (js ''c1'') \<and>
   currentChatId (dashboard second_page) = Some (js ''c1'') \<and>
   Request (PostChat (js ''more?'') (Some (js ''c1'')) True) \<in>
     set (trace (send_turn sample_env (Resolved []) second_page)) \<and>
   currentChatId (dashboard (send_turn sample_env (Resolved []) second_page)) = Some (js ''c1'') \<and>
   store_history (js ''c1'') (js ''alice'')
     (snd (store_append (js ''c2'') 1704103260000 (Some (js ''c1'')) (js ''alice'')
        \<lparr>role = User, text_of = js ''more?'', attached = []\<rparr>
        \<lparr>role = Assistant, text_of = js ''no'', attached = []\<rparr>
        (snd (store_append (js ''c1'') 1704103200000 None (js ''alice'')
           \<lparr>role = User, text_of = js ''refund?'', attached = []\<rparr>
           \<lparr>role = Assistant, text_of = js ''14 days'', attached = [sample_source]\<rparr> [])))) =
     Inr [\<lparr>role = User, text_of = js ''refund?'', attached = []\<rparr>,
          \<lparr>role = Assistant, text_of = js ''14 days'', attached = [sample_source]\<rparr>,
          \<lparr>role = User, text_of = js ''more?'', attached = []\<rparr>,
          \<lparr>role = Assistant, text_of = js ''no'', attached = []\<rparr>]"
proof -
  note first = new_chat_id_adopted
    [where new_id = "js ''c1''" and now = 1704103200000 and owner = "js ''alice''"
       and answer_text = "js ''14 days''" and srcs = "[sample_source]"
       and stamp = "js ''2024-01-01T10:00:00Z''" and msg = "js ''refund?''" and inc = True
       and st = "[]" and p = sample_page and env = sample_env and r = sample_response
       and refetch_ans = "Resolved []" and c = "js ''c1''"
       and um = "\<lparr>role = User, text_of = js ''refund?'', attached = []\<rparr>"
       and am = "\<lparr>role = Assistant, text_of = js ''14 days'', attached = [sample_source]\<rparr>"
       and other_id = "js ''c2''" and later = 1704103260000
       and um' = "\<lparr>role = User, text_of = js ''more?'', attached = []\<rparr>"
       and am' = "\<lparr>role = Assistant, text_of = js ''no'', attached = []\<rparr>"]
  note second = new_chat_id_adopted
    [where p = second_page and env = sample_env and refetch_ans = "Resolved []"
       and c = "js ''c1''"]
  have t50: "take 50 (js ''refund?'') = js ''refund?''" by (simp add: js_def)
  have w1: "serve_chat (js ''c1'') 1704103200000 (js ''alice'') (js ''14 days'') [sample_source]
       (js ''2024-01-01T10:00:00Z'') (PostChat (js ''refund?'') None True) [] =
     (Resolved (Some sample_response), [alice_session])"
    using first by (simp add: sample_response_def alice_session_def t50)
  have p0: "currentChatId (dashboard sample_page) = None" "chat_view sample_page = sample_view"
    by (simp_all add: sample_page_def)
  have e0: "post_answer sample_env = Resolved (Some sample_response)"
    by (simp add: sample_env_def)
  have h1: "\<not> truthy (currentChatId (dashboard sample_page)) \<and>
      trim (input (chat_view sample_page)) \<noteq> [] \<and> \<not> isLoading (chat_view sample_page) \<and>
      post_answer sample_env = Resolved (Some sample_response)"
    by (simp add: p0 e0 trim_sample_view js_refund_not_empty sample_view_fields)
  from first h1
  have w2: "currentChatId (dashboard (send_turn sample_env (Resolved []) sample_page)) =
      Some (res_chat_id sample_response)"
    by blast
  have id1: "res_chat_id sample_response = js ''c1''" by (simp add: sample_response_def)
  have c1: "js ''c1'' \<noteq> []" by (simp add: js_def)
  have more: "trim (js ''more?'') = js ''more?''" "js ''more?'' \<noteq> []"
    by (simp_all add: trim_def js_def is_whitespace_def)
  have l2: "\<not> isLoading (chat_view (send_turn sample_env (Resolved []) sample_page))"
    by (simp add: send_turn_def handleSend_def sendMessage_def fetchChats_def onChatCreated_def
        p0 e0 trim_sample_view js_refund_not_empty sample_view_fields Let_def split_def
        split: answer.splits option.splits)
  have h2: "currentChatId (dashboard second_page) = Some (js ''c1'') \<and> js ''c1'' \<noteq> [] \<and>
      trim (input (chat_view second_page)) \<noteq> [] \<and> \<not> isLoading (chat_view second_page)"
    using w2 l2 by (simp add: second_page_def id1 c1 more)
  from second h2
  have w3: "Request (PostChat (trim (input (chat_view second_page))) (Some (js ''c1'')) True) \<in>
        set (trace (send_turn sample_env (Resolved []) second_page)) \<and>
      currentChatId (dashboard (send_turn sample_env (Resolved []) second_page)) = Some (js ''c1'')"
    by blast
  have i2: "trim (input (chat_view second_page)) = js ''more?''"
    by (simp add: second_page_def more)
  have h4: "\<not> list_ex (\<lambda>s. session_id s = js ''c1'') []" by simp
  from first h4
  have w4: "store_history (js ''c1'') (js ''alice'')
     (snd (store_append (js ''c2'') 1704103260000 (Some (js ''c1'')) (js ''alice'')
        \<lparr>role = User, text_of = js ''more?'', attached = []\<rparr>
        \<lparr>role = Assistant, text_of = js ''no'', attached = []\<rparr>
        (snd (store_append (js ''c1'') 1704103200000 None (js ''alice'')
           \<lparr>role = User, text_of = js ''refund?'', attached = []\<rparr>
           \<lparr>role = Assistant, text_of = js ''14 days'', attached = [sample_source]\<rparr> [])))) =
     Inr [\<lparr>role = User, text_of = js ''refund?'', attached = []\<rparr>,
          \<lparr>role = Assistant, text_of = js ''14 days'', attached = [sample_source]\<rparr>,
          \<lparr>role = User, text_of = js ''more?'', attached = []\<rparr>,
          \<lparr>role = Assistant, text_of = js ''no'', attached = []\<rparr>]"
    by blast
  from w1 p0(1) e0 w2 [unfolded id1] h2 w3 [unfolded i2] w4 show ?thesis by blast
qed

section \<open>The order of the chat list\<close>

lemma mset_insert_sorted: "mset (insert_sorted cmp x ys) = add_mset x (mset ys)"
  by (induction ys) simp_all

lemma mset_Array_sort: "mset (Array_sort cmp xs) = mset xs"
  unfolding Array_sort_def by (induction xs) (simp_all add: mset_insert_sorted)

lemma set_insert_sorted: "set (insert_sorted cmp x ys) = insert x (set ys)"
  by (induction ys) auto

lemma compare_dates:
  assumes "getTime (last_message_at a) \<noteq> None" and "getTime (last_message_at b) \<noteq> None"
  shows "compare_result (number_minus (getTime (last_message_at b)) (getTime (last_message_at a))) \<le> 0
         \<longleftrightarrow> number_ge (getTime (last_message_at a)) (getTime (last_message_at b))"
  using assms by auto

lemma number_ge_total:
  assumes "x \<noteq> None" and "y \<noteq> None"
  shows "number_ge x y \<or> number_ge y x"
  using assms by auto

lemma number_ge_trans: "number_ge x y \<Longrightarrow> number_ge y z \<Longrightarrow> number_ge x z"
  by (cases x; cases y; cases z) simp_all

lemma sorted_insert_by_date:
  assumes "\<forall>c \<in> set (x # ys). getTime (last_message_at c) \<noteq> None"
    and "sorted_wrt (\<lambda>a b. number_ge (getTime (last_message_at a)) (getTime (last_message_at b))) ys"
  shows "sorted_wrt (\<lambda>a b. number_ge (getTime (last_message_at a)) (getTime (last_message_at b)))
           (insert_sorted
              (\<lambda>a b. number_minus (getTime (last_message_at b)) (getTime (last_message_at a)))
              x ys)"
  using assms
proof (induction ys)
  case Nil
  then show ?case by simp
next
  case (Cons y ys)
  let ?k = "\<lambda>c. getTime (last_message_at c)"
  from Cons.prems(1) have vx: "?k x \<noteq> None" and vy: "?k y \<noteq> None" by simp_all
  show ?case
  proof (cases "number_ge (?k x) (?k y)")
    case True
    have "\<forall>z \<in> set ys. number_ge (?k x) (?k z)"
      using True Cons.prems(2) by (auto intro: number_ge_trans)
    with True Cons.prems(2) vx vy show ?thesis
      by (simp add: compare_dates)
  next
    case False
    with number_ge_total [OF vx vy] have yx: "number_ge (?k y) (?k x)" by simp
    from Cons.prems have
      "sorted_wrt (\<lambda>a b. number_ge (?k a) (?k b))
         (insert_sorted (\<lambda>a b. number_minus (?k b) (?k a)) x ys)"
      by (intro Cons.IH) simp_all
    with False yx Cons.prems(2) vx vy show ?thesis
      by (auto simp: compare_dates set_insert_sorted)
  qed
qed

lemma sorted_sortedChats:
  assumes "\<forall>c \<in> set cs. getTime (last_message_at c) \<noteq> None"
  shows "sorted_wrt (\<lambda>a b. number_ge (getTime (last_message_at a)) (getTime (last_message_at b)))
           (sortedChats getTime cs)"
  using assms unfolding sortedChats_def Array_sort_def
proof (induction cs)
  case Nil
  then show ?case by simp
next
  case (Cons c cs)
  have "\<forall>d \<in> set (c # foldr (insert_sorted
          (\<lambda>a b. number_minus (getTime (last_message_at b)) (getTime (last_message_at a)))) cs []).
        getTime (last_message_at d) \<noteq> None"
    using Cons.prems mset_Array_sort [of _ cs, unfolded Array_sort_def, THEN mset_eq_setD]
    by simp
  moreover from Cons have
    "sorted_wrt (\<lambda>a b. number_ge (getTime (last_message_at a)) (getTime (last_message_at b)))
       (foldr (insert_sorted
          (\<lambda>a b. number_minus (getTime (last_message_at b)) (getTime (last_message_at a)))) cs [])"
    by simp
  ultimately show ?case
    by (simp add: sorted_insert_by_date)
qed

text \<open>
  C3. Whenever the sidebar shows chat cards, and every \<open>last_message_at\<close> is a date
  that \<open>Date\<close> can read, the cards are the given chats reordered most recent first: for
  every adjacent pair the earlier card's \<open>last_message_at\<close> is greater than or equal to
  the later card's.
\<close>

theorem chats_shown_most_recent_first:
  "(\<forall>c \<in> set cs. getTime (last_message_at c) \<noteq> None) \<and>
   ChatSidebar getTime cs is_loading = Chat_cards shown \<longrightarrow>
     mset shown = mset cs \<and>
     (\<forall>i. Suc i < length shown \<longrightarrow>
        number_ge (getTime (last_message_at (shown ! i)))
                  (getTime (last_message_at (shown ! Suc i))))"
proof (intro impI, elim conjE)
  assume valid: "\<forall>c \<in> set cs. getTime (last_message_at c) \<noteq> None"
    and view: "ChatSidebar getTime cs is_loading = Chat_cards shown"
  from view have shown: "shown = sortedChats getTime cs"
    by (simp add: ChatSidebar_def split: if_splits)
  have perm: "mset shown = mset cs"
    by (simp add: shown sortedChats_def mset_Array_sort)
  from valid have
    "sorted_wrt (\<lambda>a b. number_ge (getTime (last_message_at a)) (getTime (last_message_at b))) shown"
    unfolding shown by (rule sorted_sortedChats)
  then have "\<forall>i. Suc i < length shown \<longrightarrow>
        number_ge (getTime (last_message_at (shown ! i)))
                  (getTime (last_message_at (shown ! Suc i)))"
    by (auto intro: sorted_wrt_nth_less)
  with perm show "mset shown = mset cs \<and>
     (\<forall>i. Suc i < length shown \<longrightarrow>
        number_ge (getTime (last_message_at (shown ! i)))
                  (getTime (last_message_at (shown ! Suc i))))"
    by simp
qed

theorem chats_shown_most_recent_first_witness:
  "sample_getTime (last_message_at older_chat) = Some 1704103200000 \<and>
   sample_getTime (last_message_at newer_chat) = Some 1704189600000 \<and>
   ChatSidebar sample_getTime [older_chat, newer_chat] False =
     Chat_cards [newer_chat, older_chat] \<and>
   number_ge (sample_getTime (last_message_at ([newer_chat, older_chat] ! 0)))
             (sample_getTime (last_message_at ([newer_chat, older_chat] ! Suc 0)))"
proof -
  have ne: "js ''2024-01-02T10:00:00Z'' \<noteq> js ''2024-01-01T10:00:00Z''"
    by (simp add: js_def)
  have o: "sample_getTime (last_message_at older_chat) = Some 1704103200000"
    by (simp add: sample_getTime_def older_chat_def)
  have n: "sample_getTime (last_message_at newer_chat) = Some 1704189600000"
    using ne by (simp add: sample_getTime_def newer_chat_def)
  have v: "ChatSidebar sample_getTime [older_chat, newer_chat] False =
     Chat_cards [newer_chat, older_chat]"
    by (simp add: ChatSidebar_def sortedChats_def Array_sort_def o n)
  have valid: "\<forall>c \<in> set [older_chat, newer_chat]. sample_getTime (last_message_at c) \<noteq> None"
    by (simp add: o n)
  from chats_shown_most_recent_first
         [of "[older_chat, newer_chat]" sample_getTime False "[newer_chat, older_chat]"] valid v
  have "\<forall>i. Suc i < length [newer_chat, older_chat] \<longrightarrow>
        number_ge (sample_getTime (last_message_at ([newer_chat, older_chat] ! i)))
                  (sample_getTime (last_message_at ([newer_chat, older_chat] ! Suc i)))"
    by blast
  then have "number_ge (sample_getTime (last_message_at ([newer_chat, older_chat] ! 0)))
             (sample_getTime (last_message_at ([newer_chat, older_chat] ! Suc 0)))"
    by simp
  with o n v show ?thesis by simp
qed

section \<open>Blank input\<close>

text \<open>
  C4. When the input is empty or holds only whitespace, \<open>handleSend\<close> returns at once:
  it issues no request and has no other effect, it creates no message, it does not call
  \<open>onChatCreated\<close>, and the state of the chat view, of the hook (the session list) and
  of the page is unchanged.
\<close>

theorem handleSend_blank_rejected:
  "(\<forall>c \<in> set (input (chat_view p)). is_whitespace c) \<longrightarrow>
     handleSend env (currentChatId (dashboard p)) (chat_view p) (chat_view_hook p) =
       (chat_view p, chat_view_hook p, [], None) \<and>
     send_turn env refetch_ans p = p"
  by (simp add: handleSend_def send_turn_def trim_blank)

theorem handleSend_blank_rejected_witness:
  "handleSend sample_env None blank_view sample_hook = (blank_view, sample_hook, [], None) \<and>
   send_turn sample_env Rejected (sample_page\<lparr>chat_view := blank_view\<rparr>) =
     sample_page\<lparr>chat_view := blank_view\<rparr>"
proof -
  have b: "\<forall>c \<in> set (input (chat_view (sample_page\<lparr>chat_view := blank_view\<rparr>))). is_whitespace c"
    by (simp add: blank_view_def is_whitespace_def)
  from handleSend_blank_rejected [of "sample_page\<lparr>chat_view := blank_view\<rparr>" sample_env Rejected] b
  show ?thesis by (simp add: sample_page_def)
qed

section \<open>Deleting a chat that is not the caller's\<close>

text \<open>
  C5. When no session with the given id is owned by the caller, whether no session has
  that id or another user owns it, the store's \<open>delete\<close> fails with \<open>NotFoundError\<close>
  and leaves every session as it was; the request is rejected, and \<open>deleteChat\<close>
  then returns false and leaves the caller's chat list unchanged. \<open>deleteChat\<close> does the
  same for every rejected request.
\<close>

theorem delete_not_owned_fails:
  "(\<not> list_ex (owned cid owner) st \<longrightarrow>
      store_delete cid owner st = (Inl NotFoundError, st) \<and>
      serve_delete owner cid st = (Rejected, st) \<and>
      fst (deleteChat (fst (serve_delete owner cid st)) cid h) = False \<and>
      fst (snd (deleteChat (fst (serve_delete owner cid st)) cid h)) = h) \<and>
   fst (deleteChat Rejected cid h) = False \<and>
   chats (fst (snd (deleteChat Rejected cid h))) = chats h"
  by (simp add: store_delete_def serve_delete_def deleteChat_def)

theorem delete_not_owned_fails_witness:
  "\<not> list_ex (owned (js ''c1'') (js ''bob'')) [alice_session] \<and>
   \<not> list_ex (owned (js ''c9'') (js ''bob'')) [alice_session] \<and>
   store_delete (js ''c1'') (js ''bob'') [alice_session] = (Inl NotFoundError, [alice_session]) \<and>
   store_delete (js ''c9'') (js ''bob'') [alice_session] = (Inl NotFoundError, [alice_session]) \<and>
   deleteChat (fst (serve_delete (js ''bob'') (js ''c1'') [alice_session])) (js ''c1'')
       sample_hook =
     (False, sample_hook,
      [Request (DeleteChat (js ''c1'')), Console_error ''Failed to delete chat:'',
       Toast_error ''Failed to delete chat''])"
proof -
  have a: "\<not> list_ex (owned (js ''c1'') (js ''bob'')) [alice_session]"
    by (simp add: owned_def alice_session_def js_def)
  have b: "\<not> list_ex (owned (js ''c9'') (js ''bob'')) [alice_session]"
    by (simp add: owned_def alice_session_def js_def)
  from delete_not_owned_fails [of "js ''c1''" "js ''bob''" "[alice_session]" sample_hook] a
  have c: "store_delete (js ''c1'') (js ''bob'') [alice_session] = (Inl NotFoundError, [alice_session])"
    and s: "serve_delete (js ''bob'') (js ''c1'') [alice_session] = (Rejected, [alice_session])"
    by blast+
  from delete_not_owned_fails [of "js ''c9''" "js ''bob''" "[alice_session]" sample_hook] b
  have d: "store_delete (js ''c9'') (js ''bob'') [alice_session] = (Inl NotFoundError, [alice_session])"
    by blast
  have e: "deleteChat (fst (serve_delete (js ''bob'') (js ''c1'') [alice_session])) (js ''c1'')
       sample_hook =
     (False, sample_hook,
      [Request (DeleteChat (js ''c1'')), Console_error ''Failed to delete chat:'',
       Toast_error ''Failed to delete chat''])"
    by (simp add: s deleteChat_def)
  from a b c d e show ?thesis by blast
qed

section \<open>Sources belong to assistant messages\<close>

text \<open>
  C6. The user message that \<open>handleSend\<close> builds for a turn has no sources and the
  assistant message paired with it carries the sources of the response. If every user
  message of the list had no sources before the call, the same holds after it, and
  \<open>renderMessage\<close> shows no source for a user message.
\<close>

theorem user_message_sources_empty:
  "sources (newUserMessage env u r) = [] \<and>
   message_type (newUserMessage env u r) = js ''user'' \<and>
   sources (newAiMessage env r) = res_sources r \<and>
   message_type (newAiMessage env r) = js ''assistant'' \<and>
   ((\<forall>m \<in> set (messages ci). message_type m = js ''user'' \<longrightarrow> sources m = []) \<longrightarrow>
    (\<forall>m \<in> set (messages (fst (handleSend env chatId ci h))).
        message_type m = js ''user'' \<longrightarrow> sources m = [])) \<and>
   (message_type m = js ''user'' \<longrightarrow> shown_sources (renderMessage fmt m) = [])"
proof -
  have inv: "(\<forall>m \<in> set (messages ci). message_type m = js ''user'' \<longrightarrow> sources m = []) \<longrightarrow>
    (\<forall>m \<in> set (messages (fst (handleSend env chatId ci h))).
        message_type m = js ''user'' \<longrightarrow> sources m = [])"
    by (auto simp: handleSend_def sendMessage_def newUserMessage_def newAiMessage_def
        js_assistant_not_user Let_def split_def split: answer.splits option.splits)
  show ?thesis using inv
    by (simp add: newUserMessage_def newAiMessage_def renderMessage_def)
qed

theorem user_message_sources_empty_witness:
  "map message_type (messages (fst (handleSend sample_env None sample_view sample_hook))) =
     [js ''user'', js ''assistant''] \<and>
   map sources (messages (fst (handleSend sample_env None sample_view sample_hook))) =
     [[], [sample_source]] \<and>
   shown_sources (renderMessage (\<lambda>s. s)
     (newUserMessage sample_env (js ''refund?'') sample_response)) = []"
proof -
  have e: "\<forall>m \<in> set (messages sample_view). message_type m = js ''user'' \<longrightarrow> sources m = []"
    by (simp add: sample_view_def)
  from user_message_sources_empty
         [of sample_env "js ''refund?''" sample_response sample_view None sample_hook
             "newUserMessage sample_env (js ''refund?'') sample_response" "\<lambda>s. s"]
       e sample_turn_messages
  show ?thesis by (simp add: sample_response_def)
qed

section \<open>The match percentage\<close>

text \<open>
  C7, as the code has it. \<open>handleSend\<close> attaches the sources of the response to the
  assistant message as they arrive, and nothing in the chat view checks a score. Whenever
  the similarity score of every source of a message lies in the interval from 0 to 1,
  every percentage \<open>renderMessage\<close> shows for it lies between 0 and 100.
\<close>

theorem match_percent_in_range:
  "sources (newAiMessage env r) = res_sources r \<and>
   ((\<forall>s \<in> set (sources m). 0 \<le> similarity_score s \<and> similarity_score s \<le> 1) \<longrightarrow>
    (\<forall>v \<in> set (shown_sources (renderMessage fmt m)).
        0 \<le> match_percent v \<and> match_percent v \<le> 100))"
proof -
  have "0 \<le> Math_round (x * 100) \<and> Math_round (x * 100) \<le> 100" if "0 \<le> x" "x \<le> 1" for x :: real
  proof -
    have "\<lfloor>x * 100 + 1 / 2\<rfloor> \<le> 100"
      using that by (simp add: floor_le_iff)
    moreover have "0 \<le> \<lfloor>x * 100 + 1 / 2\<rfloor>"
      using that by simp
    ultimately show ?thesis by (simp add: Math_round_def)
  qed
  then show ?thesis
    by (auto simp: renderMessage_def renderSource_def newAiMessage_def Let_def)
qed

theorem match_percent_in_range_witness:
  "map similarity_score (sources (newAiMessage sample_env sample_response)) = [3 / 4] \<and>
   map match_percent
     (shown_sources (renderMessage (\<lambda>s. s) (newAiMessage sample_env sample_response))) = [75]"
proof -
  have s: "sources (newAiMessage sample_env sample_response) = [sample_source]"
    by (simp add: newAiMessage_def sample_response_def)
  have h: "\<forall>s \<in> set (sources (newAiMessage sample_env sample_response)).
      0 \<le> similarity_score s \<and> similarity_score s \<le> 1"
    by (simp add: s sample_source_def)
  have v: "map match_percent
     (shown_sources (renderMessage (\<lambda>s. s) (newAiMessage sample_env sample_response))) = [75]"
    by (simp add: renderMessage_def renderSource_def Math_round_def sample_source_def
        sample_response_def newAiMessage_def js_assistant_not_user)
  have w: "map similarity_score (sources (newAiMessage sample_env sample_response)) = [3 / 4]"
    by (simp add: s sample_source_def)
  from match_percent_in_range
         [of sample_env sample_response "newAiMessage sample_env sample_response" "\<lambda>s. s"] h
  have "\<forall>v \<in> set (shown_sources
          (renderMessage (\<lambda>s. s) (newAiMessage sample_env sample_response))).
        0 \<le> match_percent v \<and> match_percent v \<le> 100"
    by blast
  with w v show ?thesis by simp
qed

text \<open>
  A response whose source has the score 3/2 is attached unchanged to the assistant
  message, and the view shows it as a 150 percent match.
\<close>

theorem match_percent_counterexample:
  "map similarity_score
     (sources (last (messages (fst (handleSend
        (sample_env\<lparr>post_answer := Resolved (Some overscored_response)\<rparr>)
        None sample_view sample_hook))))) = [3 / 2] \<and>
   \<not> (3 / 2 \<le> (1 :: real)) \<and>
   map match_percent
     (shown_sources (renderMessage (\<lambda>s. s) (last (messages (fst (handleSend
        (sample_env\<lparr>post_answer := Resolved (Some overscored_response)\<rparr>)
        None sample_view sample_hook)))))) = [150] \<and>
   \<not> (150 \<le> (100 :: int))"
proof -
  have m: "last (messages (fst (handleSend
        (sample_env\<lparr>post_answer := Resolved (Some overscored_response)\<rparr>)
        None sample_view sample_hook))) =
      newAiMessage (sample_env\<lparr>post_answer := Resolved (Some overscored_response)\<rparr>)
        overscored_response"
    by (simp add: handleSend_def sendMessage_def fetchChats_def trim_sample_view
        js_refund_not_empty sample_view_fields Let_def split_def)
  show ?thesis
    unfolding m
    by (simp add: newAiMessage_def overscored_response_def renderMessage_def renderSource_def
        Math_round_def js_assistant_not_user sample_source_def)
qed

section \<open>Only PDF files are uploaded\<close>

lemma onDrop_selected_pdf:
  assumes "\<forall>f. selectedFile st = Some f \<longrightarrow> file_type f = js ''application/pdf''"
  shows "\<forall>f. selectedFile (fst (onDrop files st)) = Some f \<longrightarrow> file_type f = js ''application/pdf''"
  using assms by (auto simp: onDrop_def split: list.splits)

lemma onDrop_no_request: "Request q \<notin> set (snd (onDrop files st))"
  by (auto simp: onDrop_def split: list.splits)

lemma handleUpload_selected_pdf:
  assumes "\<forall>f. selectedFile st = Some f \<longrightarrow> file_type f = js ''application/pdf''"
  shows "\<forall>f. selectedFile (fst (handleUpload ans st)) = Some f \<longrightarrow>
           file_type f = js ''application/pdf''"
  using assms
  by (auto simp: handleUpload_def uploadDocument_def split: option.splits answer.splits)

lemma handleUpload_requests_pdf:
  assumes "\<forall>f. selectedFile st = Some f \<longrightarrow> file_type f = js ''application/pdf''"
    and "Request (PostUpload g) \<in> set (fst (snd (handleUpload ans st)))"
  shows "file_type g = js ''application/pdf''"
  using assms
  by (auto simp: handleUpload_def uploadDocument_def split: option.splits answer.splits)

lemma upload_step_pdf_only:
  assumes inv: "pdf_only (st, tr)"
  shows "pdf_only (upload_step (st, tr) ev)"
proof (cases ev)
  case (Drop files)
  from inv have sel: "\<forall>f. selectedFile st = Some f \<longrightarrow> file_type f = js ''application/pdf''"
    by (simp add: pdf_only_def)
  from inv have old: "\<forall>g. Request (PostUpload g) \<in> set tr \<longrightarrow> file_type g = js ''application/pdf''"
    by (simp add: pdf_only_def)
  have a: "\<forall>f. selectedFile (fst (onDrop files st)) = Some f \<longrightarrow>
             file_type f = js ''application/pdf''"
    using sel by (rule onDrop_selected_pdf)
  have b: "\<forall>g. Request (PostUpload g) \<in> set (tr @ snd (onDrop files st)) \<longrightarrow>
             file_type g = js ''application/pdf''"
    using old by (simp add: onDrop_no_request)
  show ?thesis
    unfolding Drop using a b by (simp add: pdf_only_def split_def Let_def)
next
  case (Upload ans)
  from inv have sel: "\<forall>f. selectedFile st = Some f \<longrightarrow> file_type f = js ''application/pdf''"
    by (simp add: pdf_only_def)
  from inv have old: "\<forall>g. Request (PostUpload g) \<in> set tr \<longrightarrow> file_type g = js ''application/pdf''"
    by (simp add: pdf_only_def)
  have a: "\<forall>f. selectedFile (fst (handleUpload ans st)) = Some f \<longrightarrow>
             file_type f = js ''application/pdf''"
    using sel by (rule handleUpload_selected_pdf)
  have b: "\<forall>g. Request (PostUpload g) \<in> set (tr @ fst (snd (handleUpload ans st))) \<longrightarrow>
             file_type g = js ''application/pdf''"
    using old handleUpload_requests_pdf [OF sel] by auto
  show ?thesis
    unfolding Upload using a b by (simp add: pdf_only_def split_def Let_def)
next
  case Remove
  with inv show ?thesis by (simp add: pdf_only_def removeFile_def)
qed

lemma foldl_upload_step_pdf_only: "pdf_only c \<Longrightarrow> pdf_only (foldl upload_step c evs)"
proof (induction evs arbitrary: c)
  case Nil
  then show ?case by simp
next
  case (Cons ev evs)
  obtain st tr where c: "c = (st, tr)" by (cases c)
  from Cons.prems have "pdf_only (upload_step (st, tr) ev)"
    unfolding c by (rule upload_step_pdf_only)
  then have "pdf_only (foldl upload_step (upload_step (st, tr) ev) evs)"
    by (rule Cons.IH)
  then show ?case by (simp add: c)
qed

text \<open>
  C8. A dropped file whose type is not \<open>application/pdf\<close> is not selected: \<open>onDrop\<close>
  leaves the component as it was and only shows an error, so no request is made. Over
  every sequence of drops, uploads and removals, each upload request the component
  issues carries a file whose type is \<open>application/pdf\<close>.
\<close>

theorem only_pdf_uploaded:
  "(file_type file \<noteq> js ''application/pdf'' \<longrightarrow>
      onDrop (file # others) st = (st, [Toast_error ''Please select a PDF file''])) \<and>
   (Request (PostUpload g) \<in> set (snd (DocumentUpload_run evs)) \<longrightarrow>
      file_type g = js ''application/pdf'')"
proof -
  have "pdf_only (DocumentUpload_init, [])"
    by (simp add: pdf_only_def DocumentUpload_init_def)
  then have "pdf_only (DocumentUpload_run evs)"
    unfolding DocumentUpload_run_def by (rule foldl_upload_step_pdf_only)
  then show ?thesis by (simp add: pdf_only_def onDrop_def)
qed

theorem only_pdf_uploaded_witness:
  "file_type text_file \<noteq> js ''application/pdf'' \<and>
   onDrop [text_file] DocumentUpload_init =
     (DocumentUpload_init, [Toast_error ''Please select a PDF file'']) \<and>
   Request (PostUpload pdf_file) \<in>
     set (snd (DocumentUpload_run [Drop [text_file], Drop [pdf_file], Upload (Resolved ())])) \<and>
   file_type pdf_file = js ''application/pdf''"
proof -
  have t: "file_type text_file \<noteq> js ''application/pdf''"
    by (simp add: text_file_def js_def)
  have p: "file_type pdf_file = js ''application/pdf''"
    by (simp add: pdf_file_def)
  have d1: "onDrop [text_file] DocumentUpload_init =
      (DocumentUpload_init, [Toast_error ''Please select a PDF file''])"
    using t by (simp add: onDrop_def)
  have d2: "onDrop [pdf_file] DocumentUpload_init =
      (DocumentUpload_init\<lparr>selectedFile := Some pdf_file\<rparr>, [])"
    using p by (simp add: onDrop_def)
  have u: "handleUpload (Resolved ()) (DocumentUpload_init\<lparr>selectedFile := Some pdf_file\<rparr>) =
      (DocumentUpload_init\<lparr>selectedFile := None, isUploading := False\<rparr>,
       [Request (PostUpload pdf_file), Toast_success ''Document uploaded successfully''], True)"
    by (simp add: handleUpload_def uploadDocument_def)
  have r: "Request (PostUpload pdf_file) \<in>
     set (snd (DocumentUpload_run [Drop [text_file], Drop [pdf_file], Upload (Resolved ())]))"
    by (simp add: DocumentUpload_run_def d1 d2 u)
  from only_pdf_uploaded [of text_file "[]" DocumentUpload_init pdf_file
         "[Drop [text_file], Drop [pdf_file], Upload (Resolved ())]"] t r d1
  show ?thesis by simp
qed

section \<open>Failed history loads\<close>

text \<open>
  C9. When the history request fails, \<open>getChatHistory\<close> returns the empty sequence
  instead of propagating an error; the value it returns is the one it returns for a
  chat whose history is empty.
\<close>

theorem getChatHistory_failed_empty:
  "fst (getChatHistory Rejected chatId) = [] \<and>
   fst (getChatHistory Rejected chatId) = fst (getChatHistory (Resolved []) chatId)"
  by (simp add: getChatHistory_def)

section \<open>The unit of a file size\<close>

lemma unit_index_eq_iff:
  assumes "0 < bytes"
  shows "unit_index bytes = int n \<longleftrightarrow> 1024 ^ n \<le> bytes \<and> bytes < 1024 ^ (n + 1)"
proof -
  have "unit_index bytes = \<lfloor>log (real (1024 :: nat)) (real bytes)\<rfloor>"
    by (simp add: unit_index_def log_def)
  then show ?thesis
    using floor_log_nat_eq_powr_iff [of 1024 bytes n] assms by simp
qed

lemma unit_index_nonneg:
  assumes "0 < bytes"
  shows "0 \<le> unit_index bytes"
proof -
  have "0 \<le> ln (real bytes)" using assms by simp
  moreover have "0 < ln (1024 :: real)" by simp
  ultimately have "0 \<le> ln (real bytes) / ln 1024" by simp
  then show ?thesis by (simp add: unit_index_def)
qed



lemma size_number_eq:
  assumes "0 < bytes"
  shows "size_number bytes =
           nat \<lfloor>real bytes / 1024 ^ nat (unit_index bytes) * 100 + 1 / 2\<rfloor>"
proof -
  have e: "real_of_int (unit_index bytes) = real (nat (unit_index bytes))"
    using unit_index_nonneg [OF assms] by simp
  have "(1024 :: real) powr real (nat (unit_index bytes)) = 1024 ^ nat (unit_index bytes)"
    by (rule powr_realpow) simp
  then have p: "(1024 :: real) powr real_of_int (unit_index bytes) = 1024 ^ nat (unit_index bytes)"
    by (simp only: e)
  show ?thesis
    unfolding size_number_def toFixed2_def p by (rule refl)
qed



lemma size_number_at:
  assumes "0 < bytes" and "unit_index bytes = int n"
  shows "size_number bytes = nat \<lfloor>real bytes / 1024 ^ n * 100 + 1 / 2\<rfloor>"
  using size_number_eq [OF assms(1)] assms(2) by simp

text \<open>At 1024^4 = 1099511627776 bytes the index leaves the array and the unit is printed as undefined.\<close>

lemma formatFileSize_terabyte: "formatFileSize 1099511627776 = js ''1 undefined''"
proof -
  have i: "unit_index 1099511627776 = int 4"
    using unit_index_eq_iff [of 1099511627776 4] by simp
  have n: "size_number 1099511627776 = 100"
    using size_number_at [OF _ i] by simp
  have u: "sizes_at (unit_index 1099511627776) = ''undefined''"
    using i by (simp add: sizes_at_def sizes_def)
  have s: "show_hundredths 100 = ''1''"
    by (simp add: show_hundredths_def show_nat.simps)
  show ?thesis
    by (simp add: formatFileSize_def n u s)
qed



end
